theory Spec2Isabelle
  imports Complex_Main
begin

section \<open>Python values\<close>

text \<open>
  The program is dynamically typed Python handling decoded JSON. A value is one of the
  JSON shapes, or a \<open>datetime\<close> (the time stamp of a usage record). A finite float is
  kept as the rational number it denotes; floating-point arithmetic itself is never
  computed here (see the environment below); non-finite floats, and the \<open>OverflowError\<close>
  and \<open>ValueError\<close> of arithmetic on numbers outside the range of a float, are outside the
  model: where the program raises one of them the model returns a result.
  A dictionary is an association list in insertion order whose first binding of a key
  is the one that counts; all dictionaries built by the program have distinct keys.
\<close>

datatype pyval =
    PNone
  | PBool bool
  | PInt int
  | PFloat rat
  | PStr string
  | PList "pyval list"
  | PDict "(string \<times> pyval) list"
  | PDatetime nat

text \<open>The exceptions the modelled code can raise. \<open>LibraryError s\<close> is any exception of
  an external library (the completion client, the HTTP client) whose \<open>str\<close> is \<open>s\<close>.\<close>

datatype exn =
    AttributeError
  | TypeError
  | IndexError
  | KeyError
  | ValueError
  | LibraryError string

text \<open>Truth value of an object, as \<open>if x\<close>, \<open>not x\<close> and \<open>or\<close> test it.\<close>

fun truthy :: "pyval \<Rightarrow> bool" where
  "truthy PNone = False"
| "truthy (PBool b) = b"
| "truthy (PInt i) = (i \<noteq> 0)"
| "truthy (PFloat q) = (q \<noteq> 0)"
| "truthy (PStr s) = (s \<noteq> [])"
| "truthy (PList xs) = (xs \<noteq> [])"
| "truthy (PDict kvs) = (kvs \<noteq> [])"
| "truthy (PDatetime t) = True"

text \<open>\<open>a or b\<close>: the first operand when it is true, else the second.\<close>

definition py_or :: "pyval \<Rightarrow> pyval \<Rightarrow> pyval" where
  "py_or a b = (if truthy a then a else b)"

text \<open>\<open>d.get(k, default)\<close>: only a dictionary has the method.\<close>

fun dict_get :: "pyval \<Rightarrow> string \<Rightarrow> pyval \<Rightarrow> exn + pyval" where
  "dict_get (PDict kvs) k dflt = Inr (case map_of kvs k of None \<Rightarrow> dflt | Some v \<Rightarrow> v)"
| "dict_get _ k dflt = Inl AttributeError"

text \<open>\<open>x[i]\<close> for a literal index \<open>i \<ge> 0\<close>. A string yields its \<open>i\<close>-th character as a
  string; a decoded JSON object has string keys only, so an integer key is missing.\<close>

fun subscript :: "pyval \<Rightarrow> nat \<Rightarrow> exn + pyval" where
  "subscript (PList xs) i = (if i < length xs then Inr (xs ! i) else Inl IndexError)"
| "subscript (PStr s) i = (if i < length s then Inr (PStr [s ! i]) else Inl IndexError)"
| "subscript (PDict kvs) i = Inl KeyError"
| "subscript _ i = Inl TypeError"

text \<open>The items a \<open>for\<close> loop or a comprehension draws from a value.\<close>

fun iterate :: "pyval \<Rightarrow> exn + pyval list" where
  "iterate (PList xs) = Inr xs"
| "iterate (PStr s) = Inr (map (\<lambda>c. PStr [c]) s)"
| "iterate (PDict kvs) = Inr (map (\<lambda>kv. PStr (fst kv)) kvs)"
| "iterate _ = Inl TypeError"

text \<open>\<open>len(x)\<close>.\<close>

fun py_len :: "pyval \<Rightarrow> exn + nat" where
  "py_len (PList xs) = Inr (length xs)"
| "py_len (PStr s) = Inr (length s)"
| "py_len (PDict kvs) = Inr (length kvs)"
| "py_len _ = Inl TypeError"

text \<open>The number a value denotes in arithmetic (\<open>bool\<close> is a subtype of \<open>int\<close>);
  \<open>None\<close> for a value arithmetic with a float rejects with \<open>TypeError\<close>.\<close>

fun as_number :: "pyval \<Rightarrow> rat option" where
  "as_number (PBool b) = Some (if b then 1 else 0)"
| "as_number (PInt i) = Some (of_int i)"
| "as_number (PFloat q) = Some q"
| "as_number _ = None"

text \<open>\<open>int(x)\<close> of a finite number truncates towards zero.\<close>

definition py_int :: "rat \<Rightarrow> int" where
  "py_int q = (if 0 \<le> q then \<lfloor>q\<rfloor> else \<lceil>q\<rceil>)"

text \<open>\<open>pat in s\<close> for two strings.\<close>

fun starts_with :: "string \<Rightarrow> string \<Rightarrow> bool" where
  "starts_with [] s = True"
| "starts_with (p # ps) [] = False"
| "starts_with (p # ps) (c # cs) = (p = c \<and> starts_with ps cs)"

fun str_contains :: "string \<Rightarrow> string \<Rightarrow> bool" where
  "str_contains pat [] = (pat = [])"
| "str_contains pat (c # cs) = (starts_with pat (c # cs) \<or> str_contains pat cs)"

section \<open>The environment\<close>

text \<open>How one HTTP exchange of a backend client ends, decoding of the body included:
  \<open>httpx.TimeoutException\<close>, another \<open>httpx.HTTPError\<close> (with its \<open>str\<close>; a non-2xx
  status raised by \<open>raise_for_status\<close> is one), any other exception (for instance the
  decoding error of \<open>response.json()\<close>), or the decoded JSON body.\<close>

datatype http_outcome =
    TimeoutException
  | HTTPError string
  | OtherException exn
  | JsonBody pyval

text \<open>One requested tool invocation of a model turn: \<open>tc.id\<close>, \<open>tc.function.name\<close> and
  \<open>tc.function.arguments\<close> (the arguments as JSON text).\<close>

record tool_call =
  tc_id :: string
  tc_name :: string
  tc_arguments :: string

text \<open>The messages of the transcript, by role. An assistant message is only ever
  appended with \<open>content = None\<close> and the turn's tool calls; a tool message holds the
  \<open>tool_call_id\<close> and the content.\<close>

datatype chat_message =
    System string
  | User string
  | Assistant "tool_call list"
  | Tool string string

text \<open>What the program reads of a completion: \<open>choices[0].finish_reason\<close>,
  \<open>choices[0].message.content\<close> and \<open>choices[0].message.tool_calls\<close>.\<close>

record chat_response =
  finish_reason :: string
  content :: "string option"
  tool_calls :: "tool_call list option"

text \<open>How one awaited \<open>asyncio.wait_for(create(...), timeout=60.0)\<close> ends: the wait runs
  out (\<open>TimeoutError\<close>), the call raises another exception (with its \<open>str\<close>), or it
  returns a completion. The length of the wait is not part of the model, only that it
  can run out. The exception of \<open>wait_for\<close> is taken to be the built-in \<open>TimeoutError\<close>
  the program catches, as it is from Python 3.11 on.\<close>

datatype completion_outcome =
    Timeout
  | Raised string
  | Response chat_response

text \<open>
  Everything the program takes from outside, and the Python primitives whose results are
  not computed here.
  \<^item> \<open>getenv\<close>: the process environment.
  \<^item> \<open>http i k\<close>: the outcome of HTTP request number \<open>k\<close> made by tool invocation number
    \<open>i\<close> of a query (the invocations of a query are counted from 0, in the order they
    are dispatched). The request itself does not select the outcome: the network may
    answer the same request differently each time.
  \<^item> \<open>elapsed_ms i\<close>, \<open>utcnow i\<close>: the clock readings of invocation \<open>i\<close>, the measured
    duration and the time stamp of its usage record.
  \<^item> \<open>py_format\<close>: the text an f-string gives a value that is not a string;
    \<open>fmt_1f a b\<close>: the text of \<open>f"{a / b:.1f}"\<close>; \<open>float_of_str\<close>: \<open>float(s)\<close> of a
    string, \<open>None\<close> when it raises \<open>ValueError\<close>; \<open>fmul\<close>: the floating-point product;
    \<open>haversine\<close>: the value of \<open>_haversine_distance\<close> on four numbers.
  \<^item> \<open>completion n msgs\<close>: how submission number \<open>n\<close> of a query to the completion
    service ends, given the transcript it submits.
  \<^item> \<open>json_loads\<close>, \<open>json_dumps\<close>: \<open>json.loads\<close> on the arguments text of a tool call and
    \<open>json.dumps(..., cls=_DateTimeEncoder)\<close> on a tool result.
\<close>

record env =
  getenv :: "string \<Rightarrow> string option"
  http :: "nat \<Rightarrow> nat \<Rightarrow> http_outcome"
  elapsed_ms :: "nat \<Rightarrow> rat"
  utcnow :: "nat \<Rightarrow> nat"
  py_format :: "pyval \<Rightarrow> string"
  fmt_1f :: "rat \<Rightarrow> rat \<Rightarrow> string"
  float_of_str :: "string \<Rightarrow> rat option"
  fmul :: "rat \<Rightarrow> rat \<Rightarrow> rat"
  haversine :: "rat \<Rightarrow> rat \<Rightarrow> rat \<Rightarrow> rat \<Rightarrow> rat"
  completion :: "nat \<Rightarrow> chat_message list \<Rightarrow> completion_outcome"
  json_loads :: "string \<Rightarrow> exn + pyval"
  json_dumps :: "pyval \<Rightarrow> string"

text \<open>A value inside an f-string: a string stands for itself.\<close>

definition py_str :: "env \<Rightarrow> pyval \<Rightarrow> string" where
  "py_str e v = (case v of PStr s \<Rightarrow> s | _ \<Rightarrow> py_format e v)"

text \<open>\<open>os.getenv(name, default)\<close>.\<close>

definition getenv_default :: "env \<Rightarrow> string \<Rightarrow> string \<Rightarrow> string" where
  "getenv_default e name dflt = (case getenv e name of None \<Rightarrow> dflt | Some v \<Rightarrow> v)"

section \<open>Shared schemas (src/agents/schemas.py)\<close>

record ToolUsage =
  endpoint :: string
  duration_ms :: rat
  timestamp :: nat

record ToolResponse =
  status :: string
  data :: "(string \<times> pyval) list option"
  message :: "string option"
  usage :: "ToolUsage option"
  error_code :: "string option"

text \<open>\<open>model_dump(exclude_none=True)\<close>: the fields in declaration order, a field whose
  value is \<open>None\<close> left out. The entries of the \<open>data\<close> mapping are kept as they are.\<close>

definition usage_dump :: "ToolUsage \<Rightarrow> pyval" where
  "usage_dump u =
     PDict [(''endpoint'', PStr (endpoint u)),
            (''duration_ms'', PFloat (duration_ms u)),
            (''timestamp'', PDatetime (timestamp u))]"

definition model_dump :: "ToolResponse \<Rightarrow> pyval" where
  "model_dump r =
     PDict ([(''status'', PStr (status r))]
        @ (case data r of None \<Rightarrow> [] | Some d \<Rightarrow> [(''data'', PDict d)])
        @ (case message r of None \<Rightarrow> [] | Some m \<Rightarrow> [(''message'', PStr m)])
        @ (case usage r of None \<Rightarrow> [] | Some u \<Rightarrow> [(''usage'', usage_dump u)])
        @ (case error_code r of None \<Rightarrow> [] | Some c \<Rightarrow> [(''error_code'', PStr c)]))"

text \<open>The usage record a client builds for invocation \<open>i\<close>.\<close>

definition mk_usage :: "env \<Rightarrow> nat \<Rightarrow> string \<Rightarrow> ToolUsage" where
  "mk_usage e i ep = \<lparr>endpoint = ep, duration_ms = elapsed_ms e i, timestamp = utcnow e i\<rparr>"

section \<open>Tile providers (src/servers/tiles/providers.py)\<close>

definition TILE_PROVIDERS :: "(string \<times> (string \<times> pyval) list) list" where
  "TILE_PROVIDERS =
    [(''openstreetmap'',
        [(''name'', PStr ''OpenStreetMap''),
         (''description'', PStr ''The Free and Open Collaborative Mapping Project''),
         (''url_template'', PStr ''https://tile.openstreetmap.org/{z}/{x}/{y}.png''),
         (''min_zoom'', PInt 0), (''max_zoom'', PInt 19),
         (''attribution'', PStr ''&copy; OpenStreetMap contributors''),
         (''license'', PStr ''ODbL'')]),
     (''stamen_toner'',
        [(''name'', PStr ''Stamen Toner''),
         (''description'', PStr ''Minimalist map tiles''),
         (''url_template'',
            PStr ''https://tiles.stadiamaps.com/tiles/stamen_toner/{z}/{x}/{y}.png''),
         (''min_zoom'', PInt 0), (''max_zoom'', PInt 20),
         (''attribution'', PStr ''Map tiles by Stadia Maps, Data by OpenStreetMap''),
         (''license'', PStr ''CC BY 3.0'')]),
     (''stamen_tonerbackground'',
        [(''name'', PStr ''Stamen Toner Background''),
         (''description'', PStr ''Toner map without labels''),
         (''url_template'',
            PStr ''https://tiles.stadiamaps.com/tiles/stamen_toner_background/{z}/{x}/{y}.png''),
         (''min_zoom'', PInt 0), (''max_zoom'', PInt 20),
         (''attribution'', PStr ''Map tiles by Stadia Maps, Data by OpenStreetMap''),
         (''license'', PStr ''CC BY 3.0'')]),
     (''carto_positron'',
        [(''name'', PStr ''CARTO Positron''),
         (''description'', PStr ''Light basemap with detailed labels''),
         (''url_template'',
            PStr ''https://cartodb-basemaps-a.global.ssl.fastly.net/light_all/{z}/{x}/{y}.png''),
         (''min_zoom'', PInt 0), (''max_zoom'', PInt 19),
         (''attribution'', PStr ''&copy; OpenStreetMap contributors &copy; CARTO''),
         (''license'', PStr ''CC BY 4.0'')]),
     (''carto_voyager'',
        [(''name'', PStr ''CARTO Voyager''),
         (''description'', PStr ''Colorful and detailed basemap''),
         (''url_template'',
            PStr ''https://cartodb-basemaps-a.global.ssl.fastly.net/rastered_and_labels/{z}/{x}/{y}.png''),
         (''min_zoom'', PInt 0), (''max_zoom'', PInt 19),
         (''attribution'', PStr ''&copy; OpenStreetMap contributors &copy; CARTO''),
         (''license'', PStr ''CC BY 4.0'')]),
     (''usgs_topo'',
        [(''name'', PStr ''USGS Topo''),
         (''description'', PStr ''USGS topographic maps''),
         (''url_template'',
            PStr ''https://basemap.nationalmap.gov/arcgis/rest/services/USGSTopo/MapServer/tile/{z}/{y}/{x}''),
         (''min_zoom'', PInt 0), (''max_zoom'', PInt 16),
         (''attribution'', PStr ''USGS''),
         (''license'', PStr ''Public Domain'')])]"

definition get_tile_providers :: "(string \<times> (string \<times> pyval) list) list" where
  "get_tile_providers = TILE_PROVIDERS"

text \<open>\<open>TILE_PROVIDERS.get(provider_id)\<close>. The identifier comes from the tool input and can
  be any value: a list or a dictionary is unhashable (\<open>TypeError\<close>), any other value that
  is not a string equals no key.\<close>

fun get_tile_provider :: "pyval \<Rightarrow> exn + (string \<times> pyval) list option" where
  "get_tile_provider (PStr s) = Inr (map_of TILE_PROVIDERS s)"
| "get_tile_provider (PList xs) = Inl TypeError"
| "get_tile_provider (PDict kvs) = Inl TypeError"
| "get_tile_provider _ = Inr None"

definition get_provider_info :: "pyval \<Rightarrow> exn + (string \<times> pyval) list option" where
  "get_provider_info provider_id =
     (case get_tile_provider provider_id of
        Inl x \<Rightarrow> Inl x
      | Inr None \<Rightarrow> Inr None
      | Inr (Some provider) \<Rightarrow>
          if provider \<noteq> [] then Inr (Some (provider @ [(''id'', provider_id)]))
          else Inr None)"

text \<open>\<open>provider.get("attribution") if provider else None\<close>.\<close>

definition get_attribution :: "pyval \<Rightarrow> exn + pyval" where
  "get_attribution provider_id =
     (case get_tile_provider provider_id of
        Inl x \<Rightarrow> Inl x
      | Inr None \<Rightarrow> Inr PNone
      | Inr (Some provider) \<Rightarrow>
          if provider \<noteq> [] then
            Inr (case map_of provider ''attribution'' of None \<Rightarrow> PNone | Some a \<Rightarrow> a)
          else Inr PNone)"

section \<open>Tile tools (src/servers/tiles/tools.py)\<close>

text \<open>A tool specification \<open>{"type": ..., "function": {"name": ..., "description": ...,
  "parameters": ...}}\<close>.\<close>

record tool_spec =
  spec_type :: string
  fn_name :: string
  fn_description :: string
  fn_parameters :: pyval

definition get_tiles_tools :: "tool_spec list" where
  \<open>get_tiles_tools =
    [\<lparr>spec_type = ''function'', fn_name = ''list_tile_providers'',
      fn_description = ''List all available tile layer providers with basic information'',
      fn_parameters = PDict [(''type'', PStr ''object''), (''properties'', PDict []),
                             (''required'', PList [])]\<rparr>,
     \<lparr>spec_type = ''function'', fn_name = ''get_tile_provider_info'',
      fn_description = ''Get detailed information about a specific tile provider including URL template and attribution'',
      fn_parameters = PDict [(''type'', PStr ''object''),
        (''properties'', PDict [(''provider_id'', PDict [(''type'', PStr ''string''),
           (''description'', PStr ''The ID of the tile provider (e.g., 'openstreetmap', 'carto_positron')'')])]),
        (''required'', PList [PStr ''provider_id''])]\<rparr>,
     \<lparr>spec_type = ''function'', fn_name = ''get_tile_attribution'',
      fn_description = ''Get the attribution/credit string for a specific tile provider'',
      fn_parameters = PDict [(''type'', PStr ''object''),
        (''properties'', PDict [(''provider_id'', PDict [(''type'', PStr ''string''),
           (''description'', PStr ''The ID of the tile provider'')])]),
        (''required'', PList [PStr ''provider_id''])]\<rparr>]\<close>

text \<open>\<open>d[k]\<close> on a dictionary the program built itself.\<close>

definition dict_item :: "(string \<times> pyval) list \<Rightarrow> string \<Rightarrow> exn + pyval" where
  "dict_item kvs k = (case map_of kvs k of None \<Rightarrow> Inl KeyError | Some v \<Rightarrow> Inr v)"

text \<open>The comprehension that lists the providers, in the table's order.\<close>

fun provider_list_of :: "(string \<times> (string \<times> pyval) list) list \<Rightarrow> exn + pyval list" where
  "provider_list_of [] = Inr []"
| "provider_list_of ((provider_id, info) # rest) =
     (case dict_item info ''name'' of
        Inl x \<Rightarrow> Inl x
      | Inr n \<Rightarrow>
         (case dict_item info ''description'' of
            Inl x \<Rightarrow> Inl x
          | Inr d \<Rightarrow>
             (case provider_list_of rest of
                Inl x \<Rightarrow> Inl x
              | Inr ps \<Rightarrow>
                  Inr (PDict [(''id'', PStr provider_id), (''name'', n), (''description'', d)]
                       # ps))))"

definition handle_tiles_tool :: "env \<Rightarrow> string \<Rightarrow> pyval \<Rightarrow> exn + pyval" where
  \<open>handle_tiles_tool e tool_name tool_input =
    (if tool_name = ''list_tile_providers'' then
       (case provider_list_of get_tile_providers of
          Inl x \<Rightarrow> Inl x
        | Inr provider_list \<Rightarrow>
            Inr (model_dump
              \<lparr>status = ''success'',
               data = Some [(''providers'', PList provider_list),
                            (''count'', PInt (int (length provider_list)))],
               message = Some (''Found '' @ py_str e (PInt (int (length provider_list)))
                               @ '' tile providers''),
               usage = None, error_code = None\<rparr>))
     else if tool_name = ''get_tile_provider_info'' then
       (case dict_get tool_input ''provider_id'' (PStr '''') of
          Inl x \<Rightarrow> Inl x
        | Inr provider_id \<Rightarrow>
           (case get_provider_info provider_id of
              Inl x \<Rightarrow> Inl x
            | Inr info \<Rightarrow>
                if (case info of None \<Rightarrow> True | Some i \<Rightarrow> i = []) then
                  Inr (model_dump
                    \<lparr>status = ''error'', data = None,
                     message = Some (''Provider '' @ [CHR 0x27] @ py_str e provider_id
                                     @ [CHR 0x27] @ '' not found''),
                     usage = None, error_code = Some ''NOT_FOUND''\<rparr>)
                else
                  Inr (model_dump
                    \<lparr>status = ''success'', data = info,
                     message = Some (''Provider information for '' @ py_str e provider_id),
                     usage = None, error_code = None\<rparr>)))
     else if tool_name = ''get_tile_attribution'' then
       (case dict_get tool_input ''provider_id'' (PStr '''') of
          Inl x \<Rightarrow> Inl x
        | Inr provider_id \<Rightarrow>
           (case get_attribution provider_id of
              Inl x \<Rightarrow> Inl x
            | Inr attribution \<Rightarrow>
                if attribution = PNone then
                  Inr (model_dump
                    \<lparr>status = ''error'', data = None,
                     message = Some (''Provider '' @ [CHR 0x27] @ py_str e provider_id
                                     @ [CHR 0x27] @ '' not found''),
                     usage = None, error_code = Some ''NOT_FOUND''\<rparr>)
                else
                  Inr (model_dump
                    \<lparr>status = ''success'',
                     data = Some [(''provider_id'', provider_id),
                                  (''attribution'', attribution)],
                     message = Some (''Attribution for '' @ py_str e provider_id),
                     usage = None, error_code = None\<rparr>)))
     else
       Inr (model_dump
         \<lparr>status = ''error'', data = None,
          message = Some (''Unknown tool: '' @ tool_name),
          usage = None, error_code = Some ''UNKNOWN_TOOL''\<rparr>))\<close>

section \<open>The routing client (src/servers/routing/client.py)\<close>

text \<open>Sequencing of steps that may raise: the first exception ends the computation.\<close>

definition bind_exn :: "'e + 'a \<Rightarrow> ('a \<Rightarrow> 'e + 'b) \<Rightarrow> 'e + 'b" where
  "bind_exn m f = (case m of Inl x \<Rightarrow> Inl x | Inr v \<Rightarrow> f v)"

text \<open>\<open>sep.join(parts)\<close>.\<close>

fun join :: "string \<Rightarrow> string list \<Rightarrow> string" where
  "join sep [] = []"
| "join sep [p] = p"
| "join sep (p # q # ps) = p @ sep @ join sep (q # ps)"

text \<open>A client object. The constructor is called without arguments, so the base URL
  and the timeout come from the process environment; \<open>float\<close> of a malformed timeout
  raises \<open>ValueError\<close>.\<close>

record client =
  base_url :: string
  timeout :: rat
  user_agent :: string

definition OSRMClient :: "env \<Rightarrow> exn + client" where
  "OSRMClient e =
     (case float_of_str e (getenv_default e ''OSRM_TIMEOUT_SECONDS'' ''15'') of
        None \<Rightarrow> Inl ValueError
      | Some t \<Rightarrow>
          Inr \<lparr>base_url = getenv_default e ''OSRM_BASE_URL'' ''http://router.project-osrm.org'',
               timeout = t, user_agent = ''mcp-map-agents/0.1''\<rparr>)"

text \<open>The two \<open>except\<close> clauses every OSRM method ends with.\<close>

definition osrm_timed_out :: "env \<Rightarrow> nat \<Rightarrow> string \<Rightarrow> ToolResponse" where
  "osrm_timed_out e i ep =
     \<lparr>status = ''error'', data = None, message = Some ''OSRM request timed out'',
      usage = Some (mk_usage e i ep), error_code = Some ''TIMEOUT''\<rparr>"

definition osrm_http_error :: "env \<Rightarrow> nat \<Rightarrow> string \<Rightarrow> string \<Rightarrow> ToolResponse" where
  "osrm_http_error e i ep s =
     \<lparr>status = ''error'', data = None, message = Some (''OSRM API error: '' @ s),
      usage = Some (mk_usage e i ep), error_code = Some ''HTTP_ERROR''\<rparr>"

text \<open>\<open>OSRMClient.route\<close>. The coordinates and the profile are whatever the tool input
  held. An exception other than the two \<open>httpx\<close> ones leaves the method.\<close>

definition route ::
  "env \<Rightarrow> nat \<Rightarrow> client \<Rightarrow> pyval \<Rightarrow> pyval \<Rightarrow> pyval \<Rightarrow> pyval \<Rightarrow> pyval \<Rightarrow> exn + ToolResponse" where
  "route e i c start_lat start_lon end_lat end_lon profile =
    (let ep = base_url c @ ''/route/v1/'' @ py_str e profile @ ''/''
              @ py_str e start_lon @ '','' @ py_str e start_lat @ '';''
              @ py_str e end_lon @ '','' @ py_str e end_lat
     in case http e i 0 of
          TimeoutException \<Rightarrow> Inr (osrm_timed_out e i ep)
        | HTTPError s \<Rightarrow> Inr (osrm_http_error e i ep s)
        | OtherException x \<Rightarrow> Inl x
        | JsonBody result \<Rightarrow>
            bind_exn (dict_get result ''routes'' PNone) (\<lambda>routes.
              if \<not> truthy routes then
                Inr \<lparr>status = ''error'', data = None, message = Some ''No route found'',
                     usage = Some (mk_usage e i ep), error_code = Some ''NO_ROUTE''\<rparr>
              else
                bind_exn (subscript routes 0) (\<lambda>r.
                bind_exn (dict_get r ''distance'' (PInt 0)) (\<lambda>dist.
                bind_exn (dict_get r ''duration'' (PInt 0)) (\<lambda>dur.
                bind_exn (dict_get r ''geometry'' PNone) (\<lambda>geometry.
                bind_exn (dict_get r ''legs'' PNone) (\<lambda>legs.
                  case as_number dist of
                    None \<Rightarrow> Inl TypeError
                  | Some dn \<Rightarrow>
                     (case as_number dur of
                        None \<Rightarrow> Inl TypeError
                      | Some tn \<Rightarrow>
                          Inr \<lparr>status = ''success'',
                               data = Some [(''distance_meters'', dist),
                                            (''duration_seconds'', dur),
                                            (''geometry'', geometry),
                                            (''legs'', legs),
                                            (''profile'', profile)],
                               message = Some (''Route found: '' @ fmt_1f e dn 1000 @ '' km, ''
                                               @ fmt_1f e tn 60 @ '' minutes''),
                               usage = Some (mk_usage e i ep),
                               error_code = None\<rparr>))))))))"

text \<open>\<open>OSRMClient.distance_matrix\<close>, on lists of (latitude, longitude) tuples.\<close>

definition distance_matrix ::
  "env \<Rightarrow> nat \<Rightarrow> client \<Rightarrow> (pyval \<times> pyval) list \<Rightarrow> (pyval \<times> pyval) list \<Rightarrow> pyval
     \<Rightarrow> exn + ToolResponse" where
  "distance_matrix e i c sources destinations profile =
    (if sources = [] \<or> destinations = [] then
       Inr \<lparr>status = ''error'', data = None,
            message = Some ''Sources and destinations must not be empty'',
            usage = None, error_code = Some ''INVALID_INPUT''\<rparr>
     else
       let coords_str = join '';''
             (map (\<lambda>(lat, lon). py_str e lon @ '','' @ py_str e lat) (sources @ destinations));
           ep = base_url c @ ''/table/v1/'' @ py_str e profile @ ''/'' @ coords_str;
           num_sources = length sources
       in case http e i 0 of
            TimeoutException \<Rightarrow> Inr (osrm_timed_out e i ep)
          | HTTPError s \<Rightarrow> Inr (osrm_http_error e i ep s)
          | OtherException x \<Rightarrow> Inl x
          | JsonBody result \<Rightarrow>
              bind_exn (dict_get result ''code'' PNone) (\<lambda>code.
                if code \<noteq> PStr ''Ok'' then
                  bind_exn (dict_get result ''message'' (PStr ''Unknown error'')) (\<lambda>m.
                    Inr \<lparr>status = ''error'', data = None,
                         message = Some (''OSRM error: '' @ py_str e m),
                         usage = Some (mk_usage e i ep), error_code = Some ''OSRM_ERROR''\<rparr>)
                else
                  bind_exn (dict_get result ''distances'' PNone) (\<lambda>distances.
                  bind_exn (dict_get result ''durations'' PNone) (\<lambda>durations.
                  bind_exn (dict_get result ''sources'' PNone) (\<lambda>srcs.
                  bind_exn (dict_get result ''destinations'' PNone) (\<lambda>dsts.
                    Inr \<lparr>status = ''success'',
                         data = Some [(''distances'', distances),
                                      (''durations'', durations),
                                      (''sources'', srcs),
                                      (''destinations'', dsts),
                                      (''profile'', profile)],
                         message = Some (''Distance matrix computed for ''
                                         @ py_str e (PInt (int num_sources))
                                         @ '' sources and ''
                                         @ py_str e (PInt (int (length destinations)))
                                         @ '' destinations''),
                         usage = Some (mk_usage e i ep),
                         error_code = None\<rparr>))))))"

text \<open>\<open>OSRMClient.match_trace\<close>.\<close>

definition match_trace ::
  "env \<Rightarrow> nat \<Rightarrow> client \<Rightarrow> (pyval \<times> pyval) list \<Rightarrow> pyval \<Rightarrow> exn + ToolResponse" where
  "match_trace e i c coordinates profile =
    (if coordinates = [] \<or> length coordinates < 2 then
       Inr \<lparr>status = ''error'', data = None,
            message = Some ''Need at least 2 coordinates'',
            usage = None, error_code = Some ''INVALID_INPUT''\<rparr>
     else
       let coords_str = join '';''
             (map (\<lambda>(lat, lon). py_str e lon @ '','' @ py_str e lat) coordinates);
           ep = base_url c @ ''/match/v1/'' @ py_str e profile @ ''/'' @ coords_str
       in case http e i 0 of
            TimeoutException \<Rightarrow> Inr (osrm_timed_out e i ep)
          | HTTPError s \<Rightarrow> Inr (osrm_http_error e i ep s)
          | OtherException x \<Rightarrow> Inl x
          | JsonBody result \<Rightarrow>
              bind_exn (dict_get result ''code'' PNone) (\<lambda>code.
                if code \<noteq> PStr ''Ok'' then
                  bind_exn (dict_get result ''message'' (PStr ''Unknown error'')) (\<lambda>m.
                    Inr \<lparr>status = ''error'', data = None,
                         message = Some (''OSRM error: '' @ py_str e m),
                         usage = Some (mk_usage e i ep), error_code = Some ''OSRM_ERROR''\<rparr>)
                else
                  bind_exn (dict_get result ''matchings'' PNone) (\<lambda>matchings.
                  bind_exn (dict_get result ''tracepoints'' PNone) (\<lambda>tracepoints.
                  bind_exn (dict_get result ''matchings'' (PList [])) (\<lambda>ms.
                  bind_exn (py_len ms) (\<lambda>n.
                    Inr \<lparr>status = ''success'',
                         data = Some [(''matchings'', matchings),
                                      (''tracepoints'', tracepoints),
                                      (''profile'', profile)],
                         message = Some (''Matched '' @ py_str e (PInt (int n))
                                         @ '' segment(s)''),
                         usage = Some (mk_usage e i ep),
                         error_code = None\<rparr>))))))"

section \<open>Routing tools (src/servers/routing/tools.py)\<close>

definition profile_schema :: pyval where
  \<open>profile_schema =
     PDict [(''type'', PStr ''string''),
            (''description'', PStr (''Routing profile: 'car', 'bike', or 'foot'' @ [CHR 0x27])),
            (''enum'', PList [PStr ''car'', PStr ''bike'', PStr ''foot'']),
            (''default'', PStr ''car'')]\<close>

definition number_schema :: "string \<Rightarrow> pyval" where
  "number_schema d = PDict [(''type'', PStr ''number''), (''description'', PStr d)]"

definition pairs_schema :: "string \<Rightarrow> pyval" where
  "pairs_schema d =
     PDict [(''type'', PStr ''array''), (''description'', PStr d),
            (''items'', PDict [(''type'', PStr ''array''), (''minItems'', PInt 2),
                               (''maxItems'', PInt 2),
                               (''items'', PDict [(''type'', PStr ''number'')])])]"

definition get_routing_tools :: "tool_spec list" where
  "get_routing_tools =
    [\<lparr>spec_type = ''function'', fn_name = ''route'',
      fn_description = ''Calculate the best route between two points'',
      fn_parameters = PDict [(''type'', PStr ''object''),
        (''properties'', PDict
           [(''start_latitude'', number_schema ''Starting latitude (e.g., 40.7128)''),
            (''start_longitude'', number_schema ''Starting longitude (e.g., -74.0060)''),
            (''end_latitude'', number_schema ''Ending latitude''),
            (''end_longitude'', number_schema ''Ending longitude''),
            (''profile'', profile_schema)]),
        (''required'', PList [PStr ''start_latitude'', PStr ''start_longitude'',
                              PStr ''end_latitude'', PStr ''end_longitude''])]\<rparr>,
     \<lparr>spec_type = ''function'', fn_name = ''distance_matrix'',
      fn_description = ''Calculate distances and travel times between multiple source and destination points'',
      fn_parameters = PDict [(''type'', PStr ''object''),
        (''properties'', PDict
           [(''sources'', pairs_schema ''List of [latitude, longitude] pairs for source points''),
            (''destinations'',
               pairs_schema ''List of [latitude, longitude] pairs for destination points''),
            (''profile'', profile_schema)]),
        (''required'', PList [PStr ''sources'', PStr ''destinations''])]\<rparr>,
     \<lparr>spec_type = ''function'', fn_name = ''match_trace'',
      fn_description = ''Match a GPS trace (sequence of coordinates) to the road network'',
      fn_parameters = PDict [(''type'', PStr ''object''),
        (''properties'', PDict
           [(''coordinates'',
               pairs_schema ''List of [latitude, longitude] pairs representing the trace''),
            (''profile'', profile_schema)]),
        (''required'', PList [PStr ''coordinates''])]\<rparr>]"

text \<open>The comprehension \<open>[(coord[0], coord[1]) for coord in ...]\<close> over the items drawn
  from the tool input.\<close>

fun coord_pairs :: "pyval list \<Rightarrow> exn + (pyval \<times> pyval) list" where
  "coord_pairs [] = Inr []"
| "coord_pairs (coord # rest) =
     (case subscript coord 0 of
        Inl x \<Rightarrow> Inl x
      | Inr a \<Rightarrow>
         (case subscript coord 1 of
            Inl x \<Rightarrow> Inl x
          | Inr b \<Rightarrow>
             (case coord_pairs rest of
                Inl x \<Rightarrow> Inl x
              | Inr ps \<Rightarrow> Inr ((a, b) # ps))))"

definition coords_of :: "pyval \<Rightarrow> string \<Rightarrow> exn + (pyval \<times> pyval) list" where
  "coords_of tool_input key =
     bind_exn (dict_get tool_input key (PList [])) (\<lambda>v.
     bind_exn (iterate v) coord_pairs)"

text \<open>\<open>handle_routing_tool\<close>, for tool invocation number \<open>i\<close>. The client is built
  before the tool name is looked at; a response object is dumped at the end, the reply to
  an unknown name is a plain dictionary.\<close>

definition handle_routing_tool :: "env \<Rightarrow> nat \<Rightarrow> string \<Rightarrow> pyval \<Rightarrow> exn + pyval" where
  "handle_routing_tool e i tool_name tool_input =
    bind_exn (OSRMClient e) (\<lambda>c.
      if tool_name = ''route'' then
        bind_exn (dict_get tool_input ''start_latitude'' (PInt 0)) (\<lambda>start_lat.
        bind_exn (dict_get tool_input ''start_longitude'' (PInt 0)) (\<lambda>start_lon.
        bind_exn (dict_get tool_input ''end_latitude'' (PInt 0)) (\<lambda>end_lat.
        bind_exn (dict_get tool_input ''end_longitude'' (PInt 0)) (\<lambda>end_lon.
        bind_exn (dict_get tool_input ''profile'' (PStr ''car'')) (\<lambda>profile.
        bind_exn (route e i c start_lat start_lon end_lat end_lon profile) (\<lambda>result.
          Inr (model_dump result)))))))
      else if tool_name = ''distance_matrix'' then
        bind_exn (coords_of tool_input ''sources'') (\<lambda>sources.
        bind_exn (coords_of tool_input ''destinations'') (\<lambda>destinations.
          if length sources = 1 \<and> length destinations = 1 then
            bind_exn (dict_get tool_input ''profile'' (PStr ''car'')) (\<lambda>profile.
            bind_exn (route e i c (fst (sources ! 0)) (snd (sources ! 0))
                        (fst (destinations ! 0)) (snd (destinations ! 0)) profile) (\<lambda>result.
              Inr (model_dump result)))
          else
            bind_exn (dict_get tool_input ''profile'' (PStr ''car'')) (\<lambda>profile.
            bind_exn (distance_matrix e i c sources destinations profile) (\<lambda>result.
              Inr (model_dump result)))))
      else if tool_name = ''match_trace'' then
        bind_exn (coords_of tool_input ''coordinates'') (\<lambda>coordinates.
        bind_exn (dict_get tool_input ''profile'' (PStr ''car'')) (\<lambda>profile.
        bind_exn (match_trace e i c coordinates profile) (\<lambda>result.
          Inr (model_dump result))))
      else
        Inr (PDict [(''status'', PStr ''error''),
                    (''message'', PStr (''Unknown tool: '' @ tool_name))]))"

section \<open>The geocoding client (src/servers/geocoding/client.py)\<close>

definition OVERPASS_API :: string where
  "OVERPASS_API = ''https://overpass-api.de/api/interpreter''"

definition NominatimClient :: "env \<Rightarrow> exn + client" where
  "NominatimClient e =
     (case float_of_str e (getenv_default e ''NOMINATIM_TIMEOUT_SECONDS'' ''10'') of
        None \<Rightarrow> Inl ValueError
      | Some t \<Rightarrow>
          Inr \<lparr>base_url = getenv_default e ''NOMINATIM_BASE_URL''
                             ''https://nominatim.openstreetmap.org'',
               timeout = t, user_agent = ''mcp-map-agents/0.1''\<rparr>)"

definition nominatim_timed_out :: "env \<Rightarrow> nat \<Rightarrow> string \<Rightarrow> ToolResponse" where
  "nominatim_timed_out e i ep =
     \<lparr>status = ''error'', data = None, message = Some ''Nominatim request timed out'',
      usage = Some (mk_usage e i ep), error_code = Some ''TIMEOUT''\<rparr>"

definition nominatim_http_error :: "env \<Rightarrow> nat \<Rightarrow> string \<Rightarrow> string \<Rightarrow> ToolResponse" where
  "nominatim_http_error e i ep s =
     \<lparr>status = ''error'', data = None, message = Some (''Nominatim API error: '' @ s),
      usage = Some (mk_usage e i ep), error_code = Some ''HTTP_ERROR''\<rparr>"

text \<open>\<open>float(x)\<close>.\<close>

definition py_float :: "env \<Rightarrow> pyval \<Rightarrow> exn + rat" where
  "py_float e v =
     (case v of
        PStr s \<Rightarrow> (case float_of_str e s of None \<Rightarrow> Inl ValueError | Some q \<Rightarrow> Inr q)
      | _ \<Rightarrow> (case as_number v of None \<Rightarrow> Inl TypeError | Some q \<Rightarrow> Inr q))"

text \<open>The comprehension that formats the results of a forward search.\<close>

fun format_geocode_results :: "env \<Rightarrow> pyval list \<Rightarrow> exn + pyval list" where
  "format_geocode_results e [] = Inr []"
| "format_geocode_results e (r # rest) =
     (case dict_get r ''display_name'' (PStr '''') of
        Inl x \<Rightarrow> Inl x
      | Inr name \<Rightarrow>
     (case bind_exn (dict_get r ''lat'' (PInt 0)) (py_float e) of
        Inl x \<Rightarrow> Inl x
      | Inr lat \<Rightarrow>
     (case bind_exn (dict_get r ''lon'' (PInt 0)) (py_float e) of
        Inl x \<Rightarrow> Inl x
      | Inr lon \<Rightarrow>
     (case dict_get r ''importance'' (PInt 0) of
        Inl x \<Rightarrow> Inl x
      | Inr importance \<Rightarrow>
     (case format_geocode_results e rest of
        Inl x \<Rightarrow> Inl x
      | Inr fs \<Rightarrow>
          Inr (PDict [(''name'', name), (''latitude'', PFloat lat),
                      (''longitude'', PFloat lon), (''importance'', importance)] # fs))))))"

definition forward_geocode ::
  "env \<Rightarrow> nat \<Rightarrow> client \<Rightarrow> pyval \<Rightarrow> pyval \<Rightarrow> exn + ToolResponse" where
  "forward_geocode e i c query limit =
    (let ep = base_url c @ ''/search''
     in case http e i 0 of
          TimeoutException \<Rightarrow> Inr (nominatim_timed_out e i ep)
        | HTTPError s \<Rightarrow> Inr (nominatim_http_error e i ep s)
        | OtherException x \<Rightarrow> Inl x
        | JsonBody results \<Rightarrow>
            if \<not> truthy results then
              Inr \<lparr>status = ''success'',
                   data = Some [(''results'', PList []), (''query'', query)],
                   message = Some ''No results found'',
                   usage = Some (mk_usage e i ep), error_code = None\<rparr>
            else
              bind_exn (iterate results) (\<lambda>rs.
              bind_exn (format_geocode_results e rs) (\<lambda>formatted_results.
              bind_exn (py_len results) (\<lambda>n.
                Inr \<lparr>status = ''success'',
                     data = Some [(''results'', PList formatted_results), (''query'', query)],
                     message = Some (''Found '' @ py_str e (PInt (int n)) @ '' result(s)''),
                     usage = Some (mk_usage e i ep), error_code = None\<rparr>))))"

definition reverse_geocode ::
  "env \<Rightarrow> nat \<Rightarrow> client \<Rightarrow> pyval \<Rightarrow> pyval \<Rightarrow> exn + ToolResponse" where
  "reverse_geocode e i c latitude longitude =
    (let ep = base_url c @ ''/reverse''
     in case http e i 0 of
          TimeoutException \<Rightarrow> Inr (nominatim_timed_out e i ep)
        | HTTPError s \<Rightarrow> Inr (nominatim_http_error e i ep s)
        | OtherException x \<Rightarrow> Inl x
        | JsonBody result \<Rightarrow>
            bind_exn (dict_get result ''address'' (PDict [])) (\<lambda>address.
            bind_exn (dict_get result ''display_name'' (PStr '''')) (\<lambda>display_name.
              Inr \<lparr>status = ''success'',
                   data = Some [(''address'', address), (''display_name'', display_name),
                                (''latitude'', latitude), (''longitude'', longitude)],
                   message = Some ''Reverse geocoding successful'',
                   usage = Some (mk_usage e i ep), error_code = None\<rparr>)))"

text \<open>\<open>_search_overpass\<close>, as request number \<open>k\<close> of invocation \<open>i\<close>: the elements of the
  response when they are a list, the empty list after one of the two \<open>httpx\<close>
  exceptions. The text of the Overpass query (radius, centre, tag) goes into the request
  only.\<close>

definition search_overpass :: "env \<Rightarrow> nat \<Rightarrow> nat \<Rightarrow> exn + pyval list" where
  "search_overpass e i k =
     (case http e i k of
        TimeoutException \<Rightarrow> Inr []
      | HTTPError s \<Rightarrow> Inr []
      | OtherException x \<Rightarrow> Inl x
      | JsonBody d \<Rightarrow>
          bind_exn (dict_get d ''elements'' (PList [])) (\<lambda>result.
            Inr (case result of PList xs \<Rightarrow> xs | _ \<Rightarrow> [])))"

text \<open>The loop over the search radii, from request number \<open>k\<close>: it stops at the first
  non-empty answer. The state is the pair of loop variables \<open>results\<close> and
  \<open>search_radius\<close>.\<close>

fun search_loop ::
  "env \<Rightarrow> nat \<Rightarrow> nat \<Rightarrow> rat list \<Rightarrow> pyval list \<times> rat \<Rightarrow> exn + pyval list \<times> rat" where
  "search_loop e i k [] acc = Inr acc"
| "search_loop e i k (search_radius # rest) acc =
     (case search_overpass e i k of
        Inl x \<Rightarrow> Inl x
      | Inr results \<Rightarrow>
          if results \<noteq> [] then Inr (results, search_radius)
          else search_loop e i (Suc k) rest (results, search_radius))"

text \<open>One formatted point of interest; \<open>poi_dump\<close> is the dictionary the program
  builds.\<close>

record poi =
  poi_name :: pyval
  poi_latitude :: pyval
  poi_longitude :: pyval
  poi_type :: pyval
  distance_meters :: int
  poi_details :: pyval

definition poi_dump :: "poi \<Rightarrow> pyval" where
  "poi_dump p =
     PDict [(''name'', poi_name p), (''latitude'', poi_latitude p),
            (''longitude'', poi_longitude p), (''type'', poi_type p),
            (''distance_meters'', PInt (distance_meters p)),
            (''details'', poi_details p)]"

text \<open>The body of the formatting loop for an element that has both coordinates: the
  distance first (\<open>TypeError\<close> unless the four coordinates are numbers), then the
  dictionary, whose first lookup fails unless \<open>tags\<close> is a dictionary.\<close>

definition format_poi :: "env \<Rightarrow> pyval \<Rightarrow> pyval \<Rightarrow> pyval \<Rightarrow> pyval \<Rightarrow> pyval \<Rightarrow> exn + poi" where
  "format_poi e latitude longitude tags lat lon =
    (case (as_number latitude, as_number longitude, as_number lat, as_number lon) of
       (Some a, Some b, Some c, Some d) \<Rightarrow>
         bind_exn (dict_get tags ''brand'' (PStr ''Unnamed'')) (\<lambda>brand.
         bind_exn (dict_get tags ''name'' brand) (\<lambda>name.
         bind_exn (dict_get tags ''amenity'' PNone) (\<lambda>amenity.
         bind_exn (dict_get tags ''tourism'' PNone) (\<lambda>tourism.
         bind_exn (dict_get tags ''leisure'' PNone) (\<lambda>leisure.
         bind_exn (dict_get tags ''phone'' PNone) (\<lambda>phone.
         bind_exn (dict_get tags ''website'' PNone) (\<lambda>website.
         bind_exn (dict_get tags ''opening_hours'' PNone) (\<lambda>opening_hours.
           Inr \<lparr>poi_name = name, poi_latitude = lat, poi_longitude = lon,
                poi_type = py_or amenity (py_or tourism (py_or leisure (PStr ''POI''))),
                distance_meters = py_int (haversine e a b c d),
                poi_details =
                  (if truthy phone \<or> truthy website \<or> truthy opening_hours then
                     PDict [(''phone'', phone), (''website'', website),
                            (''opening_hours'', opening_hours)]
                   else PNone)\<rparr>))))))))
     | _ \<Rightarrow> Inl TypeError)"

fun format_pois :: "env \<Rightarrow> pyval \<Rightarrow> pyval \<Rightarrow> pyval list \<Rightarrow> exn + poi list" where
  "format_pois e latitude longitude [] = Inr []"
| "format_pois e latitude longitude (elem # rest) =
     (case dict_get elem ''tags'' (PDict []) of
        Inl x \<Rightarrow> Inl x
      | Inr tags \<Rightarrow>
     (case dict_get elem ''lat'' PNone of
        Inl x \<Rightarrow> Inl x
      | Inr lat \<Rightarrow>
     (case dict_get elem ''lon'' PNone of
        Inl x \<Rightarrow> Inl x
      | Inr lon \<Rightarrow>
          if lat = PNone \<or> lon = PNone then format_pois e latitude longitude rest
          else
            (case format_poi e latitude longitude tags lat lon of
               Inl x \<Rightarrow> Inl x
             | Inr p \<Rightarrow>
                (case format_pois e latitude longitude rest of
                   Inl x \<Rightarrow> Inl x
                 | Inr ps \<Rightarrow> Inr (p # ps))))))"

text \<open>\<open>radius * k\<close> for an integer literal \<open>k\<close>, where \<open>n\<close> is the number \<open>radius\<close> denotes:
  exact on an integer, the floating-point product on a float.\<close>

definition radius_times :: "env \<Rightarrow> pyval \<Rightarrow> rat \<Rightarrow> int \<Rightarrow> rat" where
  "radius_times e radius n k =
     (case radius of PFloat q \<Rightarrow> fmul e q (of_int k) | _ \<Rightarrow> n * of_int k)"

text \<open>
  \<open>NominatimClient.poi_search\<close>. \<open>query.lower()\<close> needs a string. The amenity tag chosen
  from the query is part of the request text only and is left out. \<open>radius * 1.5\<close> needs
  a number. The loop always makes a first pass, so the initial value of its second
  variable is never read.
\<close>

definition poi_search ::
  "env \<Rightarrow> nat \<Rightarrow> client \<Rightarrow> pyval \<Rightarrow> pyval \<Rightarrow> pyval \<Rightarrow> pyval \<Rightarrow> exn + ToolResponse" where
  "poi_search e i c query latitude longitude radius =
    (case query of
       PStr q \<Rightarrow>
        (case as_number radius of
           None \<Rightarrow> Inl TypeError
         | Some n \<Rightarrow>
            (let search_radii = [n, fmul e n (3 / 2), radius_times e radius n 3,
                                 radius_times e radius n 5]
             in bind_exn (search_loop e i 0 search_radii ([], n)) (\<lambda>(results, search_radius).
                  if results = [] then
                    Inr \<lparr>status = ''success'',
                         data = Some [(''results'', PList []), (''query'', query),
                                      (''center'', PList [latitude, longitude])],
                         message = Some (''No '' @ q @ ''(s) found within ''
                                         @ py_str e (PInt (py_int (last search_radii)))
                                         @ ''m radius. Try a different search term.''),
                         usage = Some (mk_usage e i OVERPASS_API), error_code = None\<rparr>
                  else
                    bind_exn (format_pois e latitude longitude results) (\<lambda>fs.
                      let formatted_results = sort_key distance_meters fs
                      in Inr \<lparr>status = ''success'',
                              data = Some [(''results'',
                                              PList (map poi_dump (take 10 formatted_results))),
                                           (''query'', query),
                                           (''center'', PList [latitude, longitude]),
                                           (''search_radius_meters'',
                                              PInt (py_int search_radius)),
                                           (''total_found'',
                                              PInt (int (length formatted_results)))],
                              message = Some (''Found ''
                                 @ py_str e (PInt (int (length formatted_results)))
                                 @ '' '' @ q @ ''(s) near the location (showing top 10)''),
                              usage = Some (mk_usage e i OVERPASS_API),
                              error_code = None\<rparr>))))
     | _ \<Rightarrow> Inl AttributeError)"

section \<open>Geocoding tools (src/servers/geocoding/tools.py)\<close>

definition get_geocoding_tools :: "tool_spec list" where
  \<open>get_geocoding_tools =
    [\<lparr>spec_type = ''function'', fn_name = ''forward_geocode'',
      fn_description = ''Convert an address or place name to geographic coordinates (latitude/longitude)'',
      fn_parameters = PDict [(''type'', PStr ''object''),
        (''properties'', PDict
           [(''query'', PDict [(''type'', PStr ''string''),
               (''description'', PStr ''The address or place name to geocode (e.g., 'New York City', '1600 Pennsylvania Avenue')'')]),
            (''limit'', PDict [(''type'', PStr ''integer''),
               (''description'', PStr ''Maximum number of results to return (default: 5)''),
               (''default'', PInt 5)])]),
        (''required'', PList [PStr ''query''])]\<rparr>,
     \<lparr>spec_type = ''function'', fn_name = ''reverse_geocode'',
      fn_description = ''Convert geographic coordinates (latitude/longitude) to an address'',
      fn_parameters = PDict [(''type'', PStr ''object''),
        (''properties'', PDict
           [(''latitude'', number_schema ''Latitude in decimal degrees (e.g., 40.7128)''),
            (''longitude'', number_schema ''Longitude in decimal degrees (e.g., -74.0060)'')]),
        (''required'', PList [PStr ''latitude'', PStr ''longitude''])]\<rparr>,
     \<lparr>spec_type = ''function'', fn_name = ''poi_search'',
      fn_description = ''Search for points of interest (restaurants, hotels, landmarks, etc.) near a location'',
      fn_parameters = PDict [(''type'', PStr ''object''),
        (''properties'', PDict
           [(''query'', PDict [(''type'', PStr ''string''),
               (''description'', PStr ''The type of POI to search for (e.g., 'restaurants', 'hotels', 'museums')'')]),
            (''latitude'', number_schema ''Latitude of the center point''),
            (''longitude'', number_schema ''Longitude of the center point''),
            (''radius'', PDict [(''type'', PStr ''number''),
               (''description'', PStr ''Search radius in meters (default: 1000)''),
               (''default'', PInt 1000)])]),
        (''required'', PList [PStr ''query'', PStr ''latitude'', PStr ''longitude''])]\<rparr>]\<close>

definition handle_geocoding_tool :: "env \<Rightarrow> nat \<Rightarrow> string \<Rightarrow> pyval \<Rightarrow> exn + pyval" where
  "handle_geocoding_tool e i tool_name tool_input =
    bind_exn (NominatimClient e) (\<lambda>c.
      if tool_name = ''forward_geocode'' then
        bind_exn (dict_get tool_input ''query'' (PStr '''')) (\<lambda>query.
        bind_exn (dict_get tool_input ''limit'' (PInt 5)) (\<lambda>limit.
        bind_exn (forward_geocode e i c query limit) (\<lambda>result.
          Inr (model_dump result))))
      else if tool_name = ''reverse_geocode'' then
        bind_exn (dict_get tool_input ''latitude'' (PInt 0)) (\<lambda>latitude.
        bind_exn (dict_get tool_input ''longitude'' (PInt 0)) (\<lambda>longitude.
        bind_exn (reverse_geocode e i c latitude longitude) (\<lambda>result.
          Inr (model_dump result))))
      else if tool_name = ''poi_search'' then
        bind_exn (dict_get tool_input ''query'' (PStr '''')) (\<lambda>query.
        bind_exn (dict_get tool_input ''latitude'' (PInt 0)) (\<lambda>latitude.
        bind_exn (dict_get tool_input ''longitude'' (PInt 0)) (\<lambda>longitude.
        bind_exn (dict_get tool_input ''radius'' (PInt 1000)) (\<lambda>radius.
        bind_exn (poi_search e i c query latitude longitude radius) (\<lambda>result.
          Inr (model_dump result))))))
      else
        Inr (PDict [(''status'', PStr ''error''),
                    (''message'', PStr (''Unknown tool: '' @ tool_name))]))"

section \<open>The orchestrator (src/agents/orchestrator.py)\<close>

record orchestrator =
  model :: string
  tools :: "tool_spec list"
  system_prompt :: string

definition the_system_prompt :: string where
  \<open>the_system_prompt =
    ''You are a helpful map assistant that helps users with geographic queries.\<newline>''
  @ ''You have access to three map services:\<newline>''
  @ ''\<newline>''
  @ ''1. **Geocoding Service** - For converting addresses to coordinates and vice versa, plus POI search\<newline>''
  @ ''2. **Routing Service** - For calculating routes between locations, distance matrices, and trace matching\<newline>''
  @ ''3. **Tiles/Metadata Service** - For information about map tile providers\<newline>''
  @ ''\<newline>''
  @ ''When a user asks a question:\<newline>''
  @ ''1. Identify which service(s) are most relevant\<newline>''
  @ ''2. Call the appropriate tool(s) with the correct parameters\<newline>''
  @ ''3. Present the results in a clear, concise way with proper units (km, minutes, meters)\<newline>''
  @ ''4. When reporting distances, refer to them as "between [location A] and [location B]" - do NOT say "from your location" since you don't know the user's location\<newline>''
  @ ''5. Always include units in your responses (km for distance, minutes for time, meters for short distances)\<newline>''
  @ ''\<newline>''
  @ ''Be conversational and helpful. If something fails, explain what went wrong clearly.''\<close>

text \<open>\<open>_build_tools\<close>: an empty list extended by the three providers' catalogs in turn.
  \<open>build_tools_of\<close> is its body with the catalogs as arguments; the program passes the
  three catalogs defined above.\<close>

definition build_tools_of ::
  "tool_spec list \<Rightarrow> tool_spec list \<Rightarrow> tool_spec list \<Rightarrow> tool_spec list" where
  "build_tools_of geocoding routing tiles = (([] @ geocoding) @ routing) @ tiles"

definition build_tools :: "tool_spec list" where
  "build_tools = build_tools_of get_geocoding_tools get_routing_tools get_tiles_tools"

text \<open>The constructor. The completion client it creates refuses a missing API key
  (\<open>OPENAI_API_KEY\<close> unset); nothing else in it can fail. The text of that exception is
  the beginning of the library's message.\<close>

definition MapAgentOrchestrator_of ::
  "env \<Rightarrow> string \<Rightarrow> tool_spec list \<Rightarrow> tool_spec list \<Rightarrow> tool_spec list \<Rightarrow> exn + orchestrator" where
  "MapAgentOrchestrator_of e m geocoding routing tiles =
     (case getenv e ''OPENAI_API_KEY'' of
        None \<Rightarrow> Inl (LibraryError ''The api_key client option must be set'')
      | Some key \<Rightarrow>
          Inr \<lparr>model = m, tools = build_tools_of geocoding routing tiles,
               system_prompt = the_system_prompt\<rparr>)"

definition MapAgentOrchestrator :: "env \<Rightarrow> string \<Rightarrow> exn + orchestrator" where
  "MapAgentOrchestrator e m =
     MapAgentOrchestrator_of e m get_geocoding_tools get_routing_tools get_tiles_tools"

text \<open>\<open>_execute_tool\<close>, for tool invocation number \<open>i\<close> of the query.\<close>

definition execute_tool :: "env \<Rightarrow> nat \<Rightarrow> string \<Rightarrow> pyval \<Rightarrow> exn + pyval" where
  "execute_tool e i tool_name tool_input =
    (if tool_name \<in> set [''forward_geocode'', ''reverse_geocode'', ''poi_search''] then
       handle_geocoding_tool e i tool_name tool_input
     else if tool_name \<in> set [''route'', ''distance_matrix'', ''match_trace''] then
       handle_routing_tool e i tool_name tool_input
     else if tool_name \<in> set [''list_tile_providers'', ''get_tile_provider_info'',
                                ''get_tile_attribution''] then
       handle_tiles_tool e tool_name tool_input
     else
       Inr (PDict [(''status'', PStr ''error''),
                   (''message'', PStr (''Unknown tool: '' @ tool_name))]))"

text \<open>An entry of \<open>tool_calls_made\<close>.\<close>

record tool_call_record =
  rec_tool :: string
  rec_input :: pyval
  rec_result :: pyval

text \<open>The variables of \<open>process_query\<close>. \<open>submitted\<close> is not a variable of the program:
  it logs the transcripts passed to the completion service, in order, so that claims
  about what is submitted can be stated.\<close>

record loop_state =
  messages :: "chat_message list"
  tool_calls_made :: "tool_call_record list"
  iteration_count :: nat
  submitted :: "chat_message list list"

text \<open>How one pass of the \<open>while True\<close> loop ends: \<open>process_query\<close> returns or raises
  (with the log of submissions), or the loop goes on.\<close>

datatype loop_step =
    Done "exn + string \<times> tool_call_record list" "chat_message list list"
  | Next loop_state

text \<open>The log of submissions after a pass.\<close>

primrec step_log :: "loop_step \<Rightarrow> chat_message list list" where
  "step_log (Done outcome sent) = sent"
| "step_log (Next st) = submitted st"

definition timeout_message :: string where
  "timeout_message = ''Request timed out. The API took too long to respond. Please try again.''"

text \<open>\<open>response.choices[0].message.content or ""\<close>.\<close>

definition final_text :: "chat_response \<Rightarrow> string" where
  "final_text response = (case content response of None \<Rightarrow> [] | Some s \<Rightarrow> s)"

text \<open>The \<open>for tool_call in tool_calls\<close> loop. The invocation number of a call is the
  number of records made so far. An exception of \<open>json.loads\<close> or of the tool leaves
  \<open>process_query\<close>.\<close>

fun dispatch_calls :: "env \<Rightarrow> tool_call list \<Rightarrow> loop_state \<Rightarrow> exn + loop_state" where
  "dispatch_calls e [] st = Inr st"
| "dispatch_calls e (tool_call # rest) st =
     (case json_loads e (tc_arguments tool_call) of
        Inl x \<Rightarrow> Inl x
      | Inr tool_args \<Rightarrow>
         (case execute_tool e (length (tool_calls_made st)) (tc_name tool_call) tool_args of
            Inl x \<Rightarrow> Inl x
          | Inr tool_result \<Rightarrow>
              dispatch_calls e rest
                (st\<lparr>tool_calls_made := tool_calls_made st
                        @ [\<lparr>rec_tool = tc_name tool_call, rec_input = tool_args,
                            rec_result = tool_result\<rparr>],
                    messages := messages st
                        @ [Tool (tc_id tool_call) (json_dumps e tool_result)]\<rparr>)))"

text \<open>What the loop does with a completion (from the test of \<open>finish_reason\<close> to the end
  of the loop body).\<close>

definition interpret_response :: "env \<Rightarrow> loop_state \<Rightarrow> chat_response \<Rightarrow> loop_step" where
  "interpret_response e st response =
    (if finish_reason response = ''stop'' then
       Done (Inr (final_text response, tool_calls_made st)) (submitted st)
     else
       (case tool_calls response of
          Some (tc # tcs) \<Rightarrow>
            (case dispatch_calls e (tc # tcs)
                    (st\<lparr>messages := messages st @ [Assistant (tc # tcs)]\<rparr>) of
               Inl x \<Rightarrow> Done (Inl x) (submitted st)
             | Inr st' \<Rightarrow> Next st')
        | _ \<Rightarrow> Done (Inr (final_text response, tool_calls_made st)) (submitted st)))"

text \<open>\<open>_prune_message_history\<close>.\<close>

definition prune_message_history :: "chat_message list \<Rightarrow> chat_message list" where
  "prune_message_history msgs =
     (if length msgs \<le> 2 then msgs else take 2 msgs)"

text \<open>One pass of the loop: the pruning test, the submission with its two handlers, the
  single resubmission, then \<open>interpret_response\<close>. A submission is numbered by the number of
  submissions before it.\<close>

definition iteration :: "env \<Rightarrow> loop_state \<Rightarrow> loop_step" where
  "iteration e st0 =
    (let st = st0\<lparr>iteration_count := iteration_count st0 + 1\<rparr>;
         msgs = (if length (messages st) > 14 then prune_message_history (messages st)
                 else messages st);
         log1 = submitted st @ [msgs]
     in case completion e (length (submitted st)) msgs of
          Timeout \<Rightarrow> Done (Inr (timeout_message, tool_calls_made st)) log1
        | Raised s \<Rightarrow>
            if str_contains ''context_length_exceeded'' s then
              (let msgs2 = take 2 msgs;
                   log2 = log1 @ [msgs2]
               in case completion e (length log1) msgs2 of
                    Timeout \<Rightarrow> Done (Inr (timeout_message, tool_calls_made st)) log2
                  | Raised s2 \<Rightarrow> Done (Inl (LibraryError s2)) log2
                  | Response response \<Rightarrow>
                      interpret_response e (st\<lparr>messages := msgs2, submitted := log2\<rparr>) response)
            else Done (Inl (LibraryError s)) log1
        | Response response \<Rightarrow>
            interpret_response e (st\<lparr>messages := msgs, submitted := log1\<rparr>) response)"

text \<open>The \<open>while True\<close> loop. It has no bound of its own, so its value is an option:
  \<open>None\<close> when it never ends.\<close>

partial_function (option) agentic_loop ::
  "env \<Rightarrow> loop_state \<Rightarrow> ((exn + string \<times> tool_call_record list) \<times> chat_message list list) option"
  where
  "agentic_loop e st =
     (case iteration e st of
        Done outcome sent \<Rightarrow> Some (outcome, sent)
      | Next st' \<Rightarrow> agentic_loop e st')"

definition initial_state :: "orchestrator \<Rightarrow> string \<Rightarrow> loop_state" where
  "initial_state self user_message =
     \<lparr>messages = [System (system_prompt self), User user_message],
      tool_calls_made = [], iteration_count = 0, submitted = []\<rparr>"

text \<open>\<open>process_query\<close>: what it returns or raises, and the transcripts it submitted.\<close>

definition process_query ::
  "env \<Rightarrow> orchestrator \<Rightarrow> string
     \<Rightarrow> ((exn + string \<times> tool_call_record list) \<times> chat_message list list) option" where
  "process_query e self user_message = agentic_loop e (initial_state self user_message)"

text \<open>The states the loop of a query passes through at the top of its body.\<close>

inductive reachable :: "env \<Rightarrow> orchestrator \<Rightarrow> string \<Rightarrow> loop_state \<Rightarrow> bool"
  for e :: env and self :: orchestrator and user_message :: string where
  reach_init: "reachable e self user_message (initial_state self user_message)"
| reach_step: "reachable e self user_message st \<Longrightarrow> iteration e st = Next st'
                 \<Longrightarrow> reachable e self user_message st'"

section \<open>A test double of the environment\<close>

text \<open>A concrete environment for evaluating the model on examples: no configuration but
  an API key, fixed clock readings, exact products, the sum of the coordinate differences
  for the distance, and a JSON decoder that knows the empty object only. The completion
  service and the network are given as arguments.\<close>

definition stub_env ::
  "(nat \<Rightarrow> chat_message list \<Rightarrow> completion_outcome) \<Rightarrow> (nat \<Rightarrow> nat \<Rightarrow> http_outcome) \<Rightarrow> env" where
  "stub_env llm net =
     \<lparr>getenv = (\<lambda>name. if name = ''OPENAI_API_KEY'' then Some ''key'' else None),
      http = net,
      elapsed_ms = (\<lambda>i. 0),
      utcnow = (\<lambda>i. 0),
      py_format = (\<lambda>v. ''?''),
      fmt_1f = (\<lambda>a b. ''?''),
      float_of_str = (\<lambda>s. if s = ''15'' then Some 15 else if s = ''10'' then Some 10 else None),
      fmul = (\<lambda>a b. a * b),
      haversine = (\<lambda>a b c d. \<bar>c - a\<bar> + \<bar>d - b\<bar>),
      completion = llm,
      json_loads = (\<lambda>s. if s = ''{}'' then Inr (PDict []) else Inl ValueError),
      json_dumps = (\<lambda>v. ''{}'')\<rparr>"

text \<open>A network for \<open>poi_search\<close>: the first search finds nothing, the second finds
  three elements, one of them without a longitude.\<close>

definition poi_net :: "nat \<Rightarrow> nat \<Rightarrow> http_outcome" where
  "poi_net i k =
     (if k = 1 then
        JsonBody (PDict [(''elements'', PList
          [PDict [(''lat'', PInt 5), (''lon'', PInt 0),
                  (''tags'', PDict [(''name'', PStr ''Far''), (''amenity'', PStr ''cafe'')])],
           PDict [(''lat'', PInt 1), (''lon'', PInt 1)],
           PDict [(''lat'', PInt 9)]])])
      else JsonBody (PDict [(''elements'', PList [])]))"

text \<open>An orchestrator as the constructor builds it; a request for a tool that does not
  exist, and the record its dispatch leaves; a completion service that follows a script
  and then times out; a network that always times out; the state after a first pass in
  which the model asked \<open>k\<close> times for the unknown tool.\<close>

definition demo_self :: orchestrator where
  "demo_self = \<lparr>model = ''gpt-4o-mini'', tools = build_tools, system_prompt = the_system_prompt\<rparr>"

definition unknown_call :: tool_call where
  "unknown_call = \<lparr>tc_id = ''call_1'', tc_name = ''teleport'', tc_arguments = ''{}''\<rparr>"

definition unknown_record :: tool_call_record where
  "unknown_record =
     \<lparr>rec_tool = ''teleport'', rec_input = PDict [],
      rec_result = PDict [(''status'', PStr ''error''),
                          (''message'', PStr ''Unknown tool: teleport'')]\<rparr>"

definition llm_script :: "completion_outcome list \<Rightarrow> nat \<Rightarrow> chat_message list \<Rightarrow> completion_outcome" where
  "llm_script script n msgs = (if n < length script then script ! n else Timeout)"

definition calls_response :: "nat \<Rightarrow> completion_outcome" where
  "calls_response k =
     Response \<lparr>finish_reason = ''tool_calls'', content = None,
               tool_calls = Some (replicate k unknown_call)\<rparr>"

definition no_net :: "nat \<Rightarrow> nat \<Rightarrow> http_outcome" where
  "no_net i k = TimeoutException"

definition after_calls :: "nat \<Rightarrow> loop_state" where
  "after_calls k =
     \<lparr>messages = [System the_system_prompt, User ''hi'', Assistant (replicate k unknown_call)]
                   @ replicate k (Tool ''call_1'' ''{}''),
      tool_calls_made = replicate k unknown_record,
      iteration_count = 1,
      submitted = [[System the_system_prompt, User ''hi'']]\<rparr>"




definition shadow_spec :: tool_spec where
  "shadow_spec =
     \<lparr>spec_type = ''function'', fn_name = ''route'', fn_description = ''Another route tool'',
      fn_parameters = PDict [(''type'', PStr ''object''), (''properties'', PDict []),
                             (''required'', PList [])]\<rparr>"

text \<open>A network whose every answer is a table response with distances and durations.\<close>

definition table_net :: "nat \<Rightarrow> nat \<Rightarrow> http_outcome" where
  "table_net i k =
     JsonBody (PDict [(''code'', PStr ''Ok''),
                      (''distances'', PList [PList [PInt 1500, PInt 2500]]),
                      (''durations'', PList [PList [PInt 120, PInt 200]])])"

section \<open>Verified properties\<close>

subsection \<open>Auxiliary facts\<close>

lemma bind_exn_Inl [simp]: "bind_exn (Inl x) f = Inl x"
  by (simp add: bind_exn_def)

lemma bind_exn_Inr [simp]: "bind_exn (Inr v) f = f v"
  by (simp add: bind_exn_def)

lemma starts_with_append: "starts_with pat (pat @ s)"
  by (induction pat) simp_all

lemma str_contains_append: "str_contains pat (pre @ pat)"
proof (induction pre)
  case Nil
  show ?case
  proof (cases pat)
    case Nil
    then show ?thesis by simp
  next
    case (Cons p ps)
    then show ?thesis using starts_with_append [of pat "[]"] by simp
  qed
next
  case (Cons c pre)
  then show ?case by simp
qed

subsection \<open>The dispatcher\<close>

text \<open>
  Claim C4. For every tool name that is not one of the nine known names, and for any
  arguments, \<open>_execute_tool\<close> returns (it does not raise) the result with status
  \<open>error\<close> and the message \<open>Unknown tool: <name>\<close>, which contains the offending name.
\<close>

theorem unknown_tool_error:
  assumes "tool_name \<notin> set [''forward_geocode'', ''reverse_geocode'', ''poi_search'',
                              ''route'', ''distance_matrix'', ''match_trace'',
                              ''list_tile_providers'', ''get_tile_provider_info'',
                              ''get_tile_attribution'']"
  shows "execute_tool e i tool_name tool_input =
           Inr (PDict [(''status'', PStr ''error''),
                       (''message'', PStr (''Unknown tool: '' @ tool_name))])
         \<and> str_contains tool_name (''Unknown tool: '' @ tool_name)"
proof -
  have "str_contains tool_name (''Unknown tool: '' @ tool_name)"
    by (rule str_contains_append)
  moreover have "execute_tool e i tool_name tool_input =
           Inr (PDict [(''status'', PStr ''error''),
                       (''message'', PStr (''Unknown tool: '' @ tool_name))])"
    using assms unfolding execute_tool_def by simp
  ultimately show ?thesis by simp
qed

theorem unknown_tool_error_witness:
  "execute_tool (stub_env (\<lambda>n m. Timeout) (\<lambda>i k. TimeoutException)) 0 ''teleport''
       (PList [PInt 1]) =
     Inr (PDict [(''status'', PStr ''error''),
                 (''message'', PStr ''Unknown tool: teleport'')])
   \<and> str_contains ''teleport'' ''Unknown tool: teleport''"
  using unknown_tool_error [of "''teleport''" "stub_env (\<lambda>n m. Timeout) (\<lambda>i k. TimeoutException)"
      0 "PList [PInt 1]"]
  by simp

subsection \<open>Pruning\<close>

text \<open>
  Claim C8. Pruning is idempotent: pruning a transcript twice gives what pruning it once
  gives, for every transcript; and a transcript of exactly two turns (an already pruned
  one) is returned unchanged.
\<close>

theorem prune_idempotent:
  "prune_message_history (prune_message_history ms) = prune_message_history ms
   \<and> (length ms = 2 \<longrightarrow> prune_message_history ms = ms)"
  by (simp add: prune_message_history_def)

theorem prune_idempotent_witness:
  "length [System ''s'', User ''u''] = 2
   \<and> prune_message_history [System ''s'', User ''u''] = [System ''s'', User ''u'']
   \<and> prune_message_history
        (prune_message_history [System ''s'', User ''u'', Assistant [], Tool ''a'' ''b''])
      = [System ''s'', User ''u'']"
  using prune_idempotent [of "[System ''s'', User ''u'']"]
    prune_idempotent [of "[System ''s'', User ''u'', Assistant [], Tool ''a'' ''b'']"]
  by (simp add: prune_message_history_def)

subsection \<open>The result envelope\<close>

lemma bind_exn_InrE:
  assumes "bind_exn m f = Inr r"
  obtains v where "m = Inr v" and "f v = Inr r"
  using assms by (cases m) simp_all

lemma route_shape:
  "route e i c a b c' d p = Inr r \<Longrightarrow>
     (status r = ''error'' \<and> data r = None) \<or> (status r = ''success'' \<and> error_code r = None)"
  by (auto simp: route_def Let_def osrm_timed_out_def osrm_http_error_def
           elim!: bind_exn_InrE split: http_outcome.splits if_splits option.splits)

lemma distance_matrix_shape:
  "distance_matrix e i c ss ds p = Inr r \<Longrightarrow>
     (status r = ''error'' \<and> data r = None) \<or> (status r = ''success'' \<and> error_code r = None)"
  by (auto simp: distance_matrix_def Let_def osrm_timed_out_def osrm_http_error_def
           elim!: bind_exn_InrE split: http_outcome.splits if_splits option.splits)

lemma match_trace_shape:
  "match_trace e i c cs p = Inr r \<Longrightarrow>
     (status r = ''error'' \<and> data r = None) \<or> (status r = ''success'' \<and> error_code r = None)"
  by (auto simp: match_trace_def Let_def osrm_timed_out_def osrm_http_error_def
           elim!: bind_exn_InrE split: http_outcome.splits if_splits option.splits)

lemma forward_geocode_shape:
  "forward_geocode e i c q l = Inr r \<Longrightarrow>
     (status r = ''error'' \<and> data r = None) \<or> (status r = ''success'' \<and> error_code r = None)"
  by (auto simp: forward_geocode_def Let_def nominatim_timed_out_def nominatim_http_error_def
                
           elim!: bind_exn_InrE split: http_outcome.splits if_splits option.splits)

lemma reverse_geocode_shape:
  "reverse_geocode e i c la lo = Inr r \<Longrightarrow>
     (status r = ''error'' \<and> data r = None) \<or> (status r = ''success'' \<and> error_code r = None)"
  by (auto simp: reverse_geocode_def Let_def nominatim_timed_out_def nominatim_http_error_def
                
           elim!: bind_exn_InrE split: http_outcome.splits if_splits option.splits)

lemma poi_search_shape:
  "poi_search e i c q la lo rad = Inr r \<Longrightarrow> status r = ''success'' \<and> error_code r = None"
  by (auto simp: poi_search_def Let_def
           elim!: bind_exn_InrE split: pyval.splits if_splits option.splits prod.splits)

lemma dumped_shape:
  assumes "(status r = ''error'' \<and> data r = None) \<or> (status r = ''success'' \<and> error_code r = None)"
  shows "\<exists>kvs. model_dump r = PDict kvs
           \<and> (map_of kvs ''status'' = Some (PStr ''error'') \<longrightarrow> map_of kvs ''data'' = None)
           \<and> (map_of kvs ''status'' = Some (PStr ''success'')
                 \<longrightarrow> map_of kvs ''error_code'' = None)"
  using assms
  by (cases "data r"; cases "message r"; cases "usage r"; cases "error_code r")
     (auto simp: model_dump_def)

lemma handle_routing_tool_invariant:
  assumes "handle_routing_tool e i n inp = Inr r"
  shows "\<exists>kvs. r = PDict kvs
           \<and> (map_of kvs ''status'' = Some (PStr ''error'') \<longrightarrow> map_of kvs ''data'' = None)
           \<and> (map_of kvs ''status'' = Some (PStr ''success'')
                 \<longrightarrow> map_of kvs ''error_code'' = None)"
  using assms
  by (auto simp: handle_routing_tool_def
           elim!: bind_exn_InrE split: if_splits
           dest!: route_shape distance_matrix_shape match_trace_shape
           intro!: dumped_shape)

lemma handle_geocoding_tool_invariant:
  assumes "handle_geocoding_tool e i n inp = Inr r"
  shows "\<exists>kvs. r = PDict kvs
           \<and> (map_of kvs ''status'' = Some (PStr ''error'') \<longrightarrow> map_of kvs ''data'' = None)
           \<and> (map_of kvs ''status'' = Some (PStr ''success'')
                 \<longrightarrow> map_of kvs ''error_code'' = None)"
  using assms
  by (auto simp: handle_geocoding_tool_def
           elim!: bind_exn_InrE split: if_splits
           dest!: forward_geocode_shape reverse_geocode_shape poi_search_shape
           intro!: dumped_shape)

lemma handle_tiles_tool_invariant:
  assumes "handle_tiles_tool e n inp = Inr r"
  shows "\<exists>kvs. r = PDict kvs
           \<and> (map_of kvs ''status'' = Some (PStr ''error'') \<longrightarrow> map_of kvs ''data'' = None)
           \<and> (map_of kvs ''status'' = Some (PStr ''success'')
                 \<longrightarrow> map_of kvs ''error_code'' = None)"
  using assms
  by (auto simp: handle_tiles_tool_def
           split: if_splits sum.splits option.splits
           intro!: dumped_shape)

text \<open>
  Claim C3. Whatever result one of the three backend handlers (geocoding, routing, tiles)
  produces, on any tool name, any input and any behaviour of the network, it is a
  dictionary in which \<open>data\<close> is absent when \<open>status\<close> is \<open>error\<close>, and \<open>error_code\<close> is
  absent when \<open>status\<close> is \<open>success\<close>.
\<close>

theorem tool_result_invariant:
  assumes "handle_geocoding_tool e i tool_name tool_input = Inr r
           \<or> handle_routing_tool e i tool_name tool_input = Inr r
           \<or> handle_tiles_tool e tool_name tool_input = Inr r"
  shows "\<exists>kvs. r = PDict kvs
           \<and> (map_of kvs ''status'' = Some (PStr ''error'') \<longrightarrow> map_of kvs ''data'' = None)
           \<and> (map_of kvs ''status'' = Some (PStr ''success'')
                 \<longrightarrow> map_of kvs ''error_code'' = None)"
  using assms handle_geocoding_tool_invariant handle_routing_tool_invariant
    handle_tiles_tool_invariant
  by blast

theorem tool_result_invariant_witness:
  "(\<exists>kvs. handle_routing_tool (stub_env (\<lambda>n m. Timeout) (\<lambda>i k. TimeoutException)) 0
             ''route'' (PDict []) = Inr (PDict kvs)
          \<and> map_of kvs ''status'' = Some (PStr ''error'')
          \<and> map_of kvs ''error_code'' = Some (PStr ''TIMEOUT'')
          \<and> map_of kvs ''data'' = None)
   \<and> (\<exists>kvs. handle_tiles_tool (stub_env (\<lambda>n m. Timeout) (\<lambda>i k. TimeoutException))
             ''get_tile_attribution'' (PDict [(''provider_id'', PStr ''usgs_topo'')])
             = Inr (PDict kvs)
          \<and> map_of kvs ''status'' = Some (PStr ''success'')
          \<and> map_of kvs ''data''
              = Some (PDict [(''provider_id'', PStr ''usgs_topo''), (''attribution'', PStr ''USGS'')])
          \<and> map_of kvs ''error_code'' = None)"
proof -
  let ?e = "stub_env (\<lambda>n m. Timeout) (\<lambda>i k. TimeoutException)"
  have r: "handle_routing_tool ?e 0 ''route'' (PDict []) =
      Inr (PDict [(''status'', PStr ''error''), (''message'', PStr ''OSRM request timed out''),
        (''usage'', PDict [(''endpoint'', PStr ''http://router.project-osrm.org/route/v1/car/?,?;?,?''),
                           (''duration_ms'', PFloat 0), (''timestamp'', PDatetime 0)]),
        (''error_code'', PStr ''TIMEOUT'')])"
    by (simp add: handle_routing_tool_def OSRMClient_def stub_env_def getenv_default_def
        route_def osrm_timed_out_def mk_usage_def model_dump_def usage_dump_def py_str_def)
  have t: "handle_tiles_tool ?e ''get_tile_attribution'' (PDict [(''provider_id'', PStr ''usgs_topo'')]) =
      Inr (PDict [(''status'', PStr ''success''),
        (''data'', PDict [(''provider_id'', PStr ''usgs_topo''), (''attribution'', PStr ''USGS'')]),
        (''message'', PStr ''Attribution for usgs_topo'')])"
    by (simp add: handle_tiles_tool_def get_attribution_def TILE_PROVIDERS_def model_dump_def
        py_str_def)
  from tool_result_invariant [of ?e 0 "''route''" "PDict []", OF disjI2, OF disjI1, OF r]
    tool_result_invariant [of ?e 0 "''get_tile_attribution''"
      "PDict [(''provider_id'', PStr ''usgs_topo'')]", OF disjI2, OF disjI2, OF t]
  show ?thesis
    unfolding r t by simp
qed

subsection \<open>The single-pair distance matrix\<close>

lemma route_success_data:
  assumes "route e i cl a b c d p = Inr r" and "status r = ''success''"
  shows "\<exists>dist dur g l. data r = Some [(''distance_meters'', dist), (''duration_seconds'', dur),
                                      (''geometry'', g), (''legs'', l), (''profile'', p)]
                         \<and> as_number dist \<noteq> None \<and> as_number dur \<noteq> None"
  using assms
  by (auto simp: route_def Let_def osrm_timed_out_def osrm_http_error_def
           elim!: bind_exn_InrE split: http_outcome.splits if_splits option.splits)

lemma distance_matrix_success_data:
  assumes "distance_matrix e i cl ss ds p = Inr r" and "status r = ''success''"
  shows "\<exists>body ds' du s' d'. http e i 0 = JsonBody body
            \<and> dict_get body ''distances'' PNone = Inr ds'
            \<and> data r = Some [(''distances'', ds'), (''durations'', du),
                              (''sources'', s'), (''destinations'', d'), (''profile'', p)]"
  using assms
  by (auto simp: distance_matrix_def Let_def osrm_timed_out_def osrm_http_error_def
           elim!: bind_exn_InrE split: http_outcome.splits if_splits option.splits)

lemma model_dump_success:
  assumes "model_dump r = PDict kvs" and "map_of kvs ''status'' = Some (PStr ''success'')"
  shows "status r = ''success'' \<and> map_of kvs ''data'' = map_option PDict (data r)"
  using assms
  by (cases "data r"; cases "message r"; cases "usage r"; cases "error_code r")
     (auto simp: model_dump_def)

text \<open>
  Claim C9, as the code has it. A \<open>distance_matrix\<close> invocation whose \<open>sources\<close> and
  \<open>destinations\<close> each hold exactly one coordinate pair is served by \<open>OSRMClient.route\<close>
  on that pair, not by the table method: it gives what the \<open>route\<close> tool gives on the
  same coordinates and profile. When its result is a success, the data has a
  \<open>distance_meters\<close> field and a \<open>duration_seconds\<close> field. A success of the table method
  has neither of these two fields: its data has the five fields \<open>distances\<close>,
  \<open>durations\<close>, \<open>sources\<close>, \<open>destinations\<close>, \<open>profile\<close>, and its \<open>distances\<close> field is
  what the response of the service held under that key, \<open>None\<close> when the response has
  none.
\<close>

theorem single_pair_distance_matrix:
  assumes src: "dict_get tool_input ''sources'' (PList []) = Inr (PList [PList [a, b]])"
      and dst: "dict_get tool_input ''destinations'' (PList []) = Inr (PList [PList [c, d]])"
      and prof: "dict_get tool_input ''profile'' (PStr ''car'') = Inr p"
  shows "handle_routing_tool e i ''distance_matrix'' tool_input =
           bind_exn (OSRMClient e) (\<lambda>cl.
             bind_exn (route e i cl a b c d p) (\<lambda>result. Inr (model_dump result)))
       \<and> handle_routing_tool e i ''distance_matrix'' tool_input =
           handle_routing_tool e i ''route''
             (PDict [(''start_latitude'', a), (''start_longitude'', b),
                     (''end_latitude'', c), (''end_longitude'', d), (''profile'', p)])
       \<and> (\<forall>kvs. handle_routing_tool e i ''distance_matrix'' tool_input = Inr (PDict kvs)
                 \<and> map_of kvs ''status'' = Some (PStr ''success'')
             \<longrightarrow> (\<exists>fields dist dur. map_of kvs ''data'' = Some (PDict fields)
                    \<and> map_of fields ''distance_meters'' = Some dist
                    \<and> map_of fields ''duration_seconds'' = Some dur))
       \<and> (\<forall>cl ss ds q r. distance_matrix e i cl ss ds q = Inr r \<and> status r = ''success''
             \<longrightarrow> (\<exists>fields body. data r = Some fields \<and> http e i 0 = JsonBody body
                    \<and> map fst fields = [''distances'', ''durations'', ''sources'',
                                          ''destinations'', ''profile'']
                    \<and> map_of fields ''distance_meters'' = None
                    \<and> map_of fields ''duration_seconds'' = None
                    \<and> (\<exists>v. map_of fields ''distances'' = Some v
                            \<and> dict_get body ''distances'' PNone = Inr v)))"
proof -
  let ?lhs = "handle_routing_tool e i ''distance_matrix'' tool_input"
  let ?served = "bind_exn (OSRMClient e) (\<lambda>cl.
             bind_exn (route e i cl a b c d p) (\<lambda>result. Inr (model_dump result)))"
  obtain kvs0 where ti: "tool_input = PDict kvs0"
    using src by (cases tool_input) simp_all
  have A: "?lhs = ?served"
    using src dst prof
    by (simp add: handle_routing_tool_def coords_of_def)
  have B: "handle_routing_tool e i ''route''
             (PDict [(''start_latitude'', a), (''start_longitude'', b),
                     (''end_latitude'', c), (''end_longitude'', d), (''profile'', p)]) = ?served"
    by (simp add: handle_routing_tool_def)
  have C: "\<exists>fields dist dur. map_of kvs ''data'' = Some (PDict fields)
                    \<and> map_of fields ''distance_meters'' = Some dist
                    \<and> map_of fields ''duration_seconds'' = Some dur"
    if h: "?lhs = Inr (PDict kvs)" and s: "map_of kvs ''status'' = Some (PStr ''success'')" for kvs
  proof -
    from h A obtain cl r where r: "route e i cl a b c d p = Inr r" and m: "model_dump r = PDict kvs"
      by (auto elim!: bind_exn_InrE)
    from model_dump_success [OF m s] have st: "status r = ''success''"
      and dt: "map_of kvs ''data'' = map_option PDict (data r)" by simp_all
    from route_success_data [OF r st] dt show ?thesis by auto
  qed
  have D: "\<exists>fields body. data r = Some fields \<and> http e i 0 = JsonBody body
                    \<and> map fst fields = [''distances'', ''durations'', ''sources'',
                                          ''destinations'', ''profile'']
                    \<and> map_of fields ''distance_meters'' = None
                    \<and> map_of fields ''duration_seconds'' = None
                    \<and> (\<exists>v. map_of fields ''distances'' = Some v
                            \<and> dict_get body ''distances'' PNone = Inr v)"
    if "distance_matrix e i cl ss ds q = Inr r" and "status r = ''success''" for cl ss ds q r
    using distance_matrix_success_data [OF that] by auto
  from A B C D show ?thesis by (intro conjI allI impI) (simp_all, blast+)
qed

theorem single_pair_distance_matrix_witness:
  "dict_get (PDict [(''sources'', PList [PList [PInt 1, PInt 2]]),
                    (''destinations'', PList [PList [PInt 3, PInt 4]])])
       ''sources'' (PList []) = Inr (PList [PList [PInt 1, PInt 2]])
   \<and> dict_get (PDict [(''sources'', PList [PList [PInt 1, PInt 2]]),
                    (''destinations'', PList [PList [PInt 3, PInt 4]])])
       ''destinations'' (PList []) = Inr (PList [PList [PInt 3, PInt 4]])
   \<and> dict_get (PDict [(''sources'', PList [PList [PInt 1, PInt 2]]),
                    (''destinations'', PList [PList [PInt 3, PInt 4]])])
       ''profile'' (PStr ''car'') = Inr (PStr ''car'')
   \<and> (\<exists>kvs fields.
         handle_routing_tool
           (stub_env (\<lambda>n m. Timeout)
              (\<lambda>i k. JsonBody (PDict [(''code'', PStr ''Ok''),
                 (''routes'', PList [PDict [(''distance'', PInt 1500),
                                            (''duration'', PInt 120)]])])))
           0 ''distance_matrix''
           (PDict [(''sources'', PList [PList [PInt 1, PInt 2]]),
                   (''destinations'', PList [PList [PInt 3, PInt 4]])])
         = Inr (PDict kvs)
       \<and> map_of kvs ''status'' = Some (PStr ''success'')
       \<and> map_of kvs ''data'' = Some (PDict fields)
       \<and> map_of fields ''distance_meters'' = Some (PInt 1500)
       \<and> map_of fields ''duration_seconds'' = Some (PInt 120))
   \<and> (\<exists>r fields.
         distance_matrix
           (stub_env (\<lambda>n m. Timeout)
              (\<lambda>i k. JsonBody (PDict [(''code'', PStr ''Ok''),
                 (''routes'', PList [PDict [(''distance'', PInt 1500),
                                            (''duration'', PInt 120)]])])))
           0 \<lparr>base_url = ''u'', timeout = 15, user_agent = ''a''\<rparr>
           [(PInt 1, PInt 2)] [(PInt 3, PInt 4), (PInt 5, PInt 6)] (PStr ''car'') = Inr r
       \<and> status r = ''success''
       \<and> data r = Some fields
       \<and> map_of fields ''distance_meters'' = None
       \<and> map_of fields ''distances'' = Some PNone)"
proof -
  let ?e = "stub_env (\<lambda>n m. Timeout)
              (\<lambda>i k. JsonBody (PDict [(''code'', PStr ''Ok''),
                 (''routes'', PList [PDict [(''distance'', PInt 1500),
                                            (''duration'', PInt 120)]])]))"
  let ?ti = "PDict [(''sources'', PList [PList [PInt 1, PInt 2]]),
                    (''destinations'', PList [PList [PInt 3, PInt 4]])]"
  have s: "dict_get ?ti ''sources'' (PList []) = Inr (PList [PList [PInt 1, PInt 2]])"
    and d: "dict_get ?ti ''destinations'' (PList []) = Inr (PList [PList [PInt 3, PInt 4]])"
    and p: "dict_get ?ti ''profile'' (PStr ''car'') = Inr (PStr ''car'')"
    by simp_all
  have served: "handle_routing_tool ?e 0 ''distance_matrix'' ?ti =
      Inr (PDict [(''status'', PStr ''success''),
        (''data'', PDict [(''distance_meters'', PInt 1500), (''duration_seconds'', PInt 120),
                          (''geometry'', PNone), (''legs'', PNone), (''profile'', PStr ''car'')]),
        (''message'', PStr ''Route found: ? km, ? minutes''),
        (''usage'', PDict [(''endpoint'', PStr ''http://router.project-osrm.org/route/v1/car/?,?;?,?''),
                           (''duration_ms'', PFloat 0), (''timestamp'', PDatetime 0)])])"
    using single_pair_distance_matrix [OF s d p, of ?e 0]
    by (simp add: OSRMClient_def stub_env_def getenv_default_def route_def mk_usage_def
        model_dump_def usage_dump_def py_str_def)
  have table: "distance_matrix ?e 0 \<lparr>base_url = ''u'', timeout = 15, user_agent = ''a''\<rparr>
           [(PInt 1, PInt 2)] [(PInt 3, PInt 4), (PInt 5, PInt 6)] (PStr ''car'') =
      Inr \<lparr>status = ''success'',
           data = Some [(''distances'', PNone), (''durations'', PNone), (''sources'', PNone),
                        (''destinations'', PNone), (''profile'', PStr ''car'')],
           message = Some ''Distance matrix computed for ? sources and ? destinations'',
           usage = Some \<lparr>endpoint = ''u/table/v1/car/?,?;?,?;?,?'', duration_ms = 0, timestamp = 0\<rparr>,
           error_code = None\<rparr>"
    by (simp add: distance_matrix_def stub_env_def mk_usage_def py_str_def)
  show ?thesis
    unfolding served table by simp
qed

text \<open>
  The claim as stated (the table path omits distance) does not hold: the table method
  copies the \<open>distances\<close> of the response into its result. With one source, two
  destinations and a response that carries distances, the result of the invocation
  reports them.
\<close>

theorem table_path_reports_distances:
  "handle_routing_tool (stub_env (llm_script []) table_net) 0 ''distance_matrix''
     (PDict [(''sources'', PList [PList [PInt 1, PInt 2]]),
             (''destinations'', PList [PList [PInt 3, PInt 4], PList [PInt 5, PInt 6]])])
   = Inr (PDict [(''status'', PStr ''success''),
        (''data'', PDict [(''distances'', PList [PList [PInt 1500, PInt 2500]]),
                          (''durations'', PList [PList [PInt 120, PInt 200]]),
                          (''sources'', PNone), (''destinations'', PNone),
                          (''profile'', PStr ''car'')]),
        (''message'', PStr ''Distance matrix computed for ? sources and ? destinations''),
        (''usage'', PDict [(''endpoint'',
                              PStr ''http://router.project-osrm.org/table/v1/car/?,?;?,?;?,?''),
                           (''duration_ms'', PFloat 0), (''timestamp'', PDatetime 0)])])
   \<and> distance_matrix (stub_env (llm_script []) table_net) 0
       \<lparr>base_url = ''http://router.project-osrm.org'', timeout = 15,
        user_agent = ''mcp-map-agents/0.1''\<rparr>
       [(PInt 1, PInt 2)] [(PInt 3, PInt 4), (PInt 5, PInt 6)] (PStr ''car'')
   = Inr \<lparr>status = ''success'',
          data = Some [(''distances'', PList [PList [PInt 1500, PInt 2500]]),
                       (''durations'', PList [PList [PInt 120, PInt 200]]),
                       (''sources'', PNone), (''destinations'', PNone),
                       (''profile'', PStr ''car'')],
          message = Some ''Distance matrix computed for ? sources and ? destinations'',
          usage = Some \<lparr>endpoint = ''http://router.project-osrm.org/table/v1/car/?,?;?,?;?,?'',
                         duration_ms = 0, timestamp = 0\<rparr>,
          error_code = None\<rparr>"
proof -
  let ?e = "stub_env (llm_script []) table_net"
  have t: "distance_matrix ?e 0
       \<lparr>base_url = ''http://router.project-osrm.org'', timeout = 15,
        user_agent = ''mcp-map-agents/0.1''\<rparr>
       [(PInt 1, PInt 2)] [(PInt 3, PInt 4), (PInt 5, PInt 6)] (PStr ''car'')
   = Inr \<lparr>status = ''success'',
          data = Some [(''distances'', PList [PList [PInt 1500, PInt 2500]]),
                       (''durations'', PList [PList [PInt 120, PInt 200]]),
                       (''sources'', PNone), (''destinations'', PNone),
                       (''profile'', PStr ''car'')],
          message = Some ''Distance matrix computed for ? sources and ? destinations'',
          usage = Some \<lparr>endpoint = ''http://router.project-osrm.org/table/v1/car/?,?;?,?;?,?'',
                         duration_ms = 0, timestamp = 0\<rparr>,
          error_code = None\<rparr>"
    by (simp add: distance_matrix_def stub_env_def table_net_def mk_usage_def py_str_def)
  have c: "OSRMClient ?e = Inr \<lparr>base_url = ''http://router.project-osrm.org'', timeout = 15,
        user_agent = ''mcp-map-agents/0.1''\<rparr>"
    by (simp add: OSRMClient_def stub_env_def getenv_default_def)
  show ?thesis
    unfolding t
    by (simp add: handle_routing_tool_def coords_of_def c t model_dump_def usage_dump_def)
qed

subsection \<open>Points of interest\<close>

lemma search_loop_first_hit:
  assumes "\<forall>j<k. search_overpass e i (k0 + j) = Inr []"
      and "search_overpass e i (k0 + k) = Inr els" and "els \<noteq> []"
      and "k < length radii"
  shows "search_loop e i k0 radii acc = Inr (els, radii ! k)"
  using assms
proof (induction radii arbitrary: k0 k acc)
  case Nil
  then show ?case by simp
next
  case (Cons r radii)
  show ?case
  proof (cases k)
    case 0
    with Cons.prems show ?thesis by simp
  next
    case (Suc k')
    have first: "search_overpass e i k0 = Inr []"
      using Cons.prems(1) Suc by (metis add.right_neutral zero_less_Suc)
    have rest: "\<forall>j<k'. search_overpass e i (Suc k0 + j) = Inr []"
      using Cons.prems(1) Suc by (metis Suc_less_eq add_Suc_shift)
    have hit: "search_overpass e i (Suc k0 + k') = Inr els"
      using Cons.prems(2) Suc by simp
    have "search_loop e i (Suc k0) radii ([], r) = Inr (els, radii ! k')"
      using Cons.IH [OF rest hit Cons.prems(3)] Cons.prems(4) Suc by simp
    with first Suc show ?thesis by simp
  qed
qed

lemma format_poi_distance:
  assumes "format_poi e latitude longitude tags lat lon = Inr p"
  shows "\<exists>a b c d. as_number latitude = Some a \<and> as_number longitude = Some b
           \<and> as_number (poi_latitude p) = Some c \<and> as_number (poi_longitude p) = Some d
           \<and> distance_meters p = py_int (haversine e a b c d)"
  using assms
  by (auto simp: format_poi_def elim!: bind_exn_InrE split: option.splits)

lemma format_pois_distance:
  assumes "format_pois e latitude longitude els = Inr fs" and "p \<in> set fs"
  shows "\<exists>a b c d. as_number latitude = Some a \<and> as_number longitude = Some b
           \<and> as_number (poi_latitude p) = Some c \<and> as_number (poi_longitude p) = Some d
           \<and> distance_meters p = py_int (haversine e a b c d)"
  using assms
proof (induction els arbitrary: fs)
  case Nil
  then show ?case by simp
next
  case (Cons el els)
  then show ?case
    by (auto split: sum.splits if_splits dest!: format_poi_distance)
qed

lemma poi_search_found:
  assumes ret: "poi_search e i cl query latitude longitude radius = Inr r"
      and hit: "search_overpass e i k = Inr els" and ne: "els \<noteq> []" and k: "k < 4"
      and before: "\<forall>j<k. search_overpass e i j = Inr []"
  shows "\<exists>fs. format_pois e latitude longitude els = Inr fs
           \<and> status r = ''success''
           \<and> (\<exists>fields. data r = Some fields
                 \<and> map_of fields ''results''
                     = Some (PList (map poi_dump (take 10 (sort_key distance_meters fs))))
                 \<and> map_of fields ''total_found'' = Some (PInt (int (length fs))))"
proof -
  from ret obtain q where q: "query = PStr q"
    by (cases query) (simp_all add: poi_search_def)
  from ret q obtain n where n: "as_number radius = Some n"
    by (cases "as_number radius") (simp_all add: poi_search_def)
  let ?radii = "[n, fmul e n (3 / 2), radius_times e radius n 3, radius_times e radius n 5]"
  have loop: "search_loop e i 0 ?radii ([], n) = Inr (els, ?radii ! k)"
    using search_loop_first_hit [of k e i 0 els ?radii "([], n)"] hit ne k before by simp
  from ret q n loop ne obtain fs where fs: "format_pois e latitude longitude els = Inr fs"
    by (auto simp: poi_search_def Let_def elim!: bind_exn_InrE)
  from ret q n loop ne fs show ?thesis
    by (auto simp: poi_search_def Let_def)
qed

text \<open>
  Claim C10. Take a \<open>poi_search\<close> invocation that returns and in which one of the (at most
  four) Overpass searches is the first to find elements. Its result is a success whose
  \<open>results\<close> are the first ten of the formatted elements in the (stable) order of their
  \<open>distance_meters\<close>: at most ten entries, in non-decreasing order of \<open>distance_meters\<close>,
  each distance being the truncated distance of the entry from the query centre; and
  \<open>total_found\<close> is the number of formatted elements before the cut to ten.
\<close>

theorem poi_search_sorted_top_ten:
  assumes ret: "poi_search e i cl query latitude longitude radius = Inr r"
      and hit: "search_overpass e i k = Inr els" and ne: "els \<noteq> []" and k: "k < 4"
      and before: "\<forall>j<k. search_overpass e i j = Inr []"
  shows "\<exists>fs entries fields.
           format_pois e latitude longitude els = Inr fs
         \<and> entries = take 10 (sort_key distance_meters fs)
         \<and> status r = ''success''
         \<and> data r = Some fields
         \<and> map_of fields ''results'' = Some (PList (map poi_dump entries))
         \<and> map_of fields ''total_found'' = Some (PInt (int (length fs)))
         \<and> length entries \<le> 10
         \<and> length entries = min 10 (length fs)
         \<and> sorted (map distance_meters entries)
         \<and> map (\<lambda>v. dict_get v ''distance_meters'' PNone) (map poi_dump entries)
             = map (\<lambda>p. Inr (PInt (distance_meters p))) entries
         \<and> (\<forall>p \<in> set entries. \<exists>a b c d.
               as_number latitude = Some a \<and> as_number longitude = Some b
             \<and> as_number (poi_latitude p) = Some c \<and> as_number (poi_longitude p) = Some d
             \<and> distance_meters p = py_int (haversine e a b c d))"
proof -
  from poi_search_found [OF assms] obtain fs fields where
    fs: "format_pois e latitude longitude els = Inr fs"
    and st: "status r = ''success''"
    and dt: "data r = Some fields"
    and res: "map_of fields ''results''
                = Some (PList (map poi_dump (take 10 (sort_key distance_meters fs))))"
    and tot: "map_of fields ''total_found'' = Some (PInt (int (length fs)))"
    by blast
  let ?entries = "take 10 (sort_key distance_meters fs)"
  have len: "length ?entries = min 10 (length fs)"
    by (simp add: min.commute)
  have srt: "sorted (map distance_meters ?entries)"
    using sorted_sort_key [of distance_meters fs]
    by (simp add: take_map [symmetric])
  have keys: "map (\<lambda>v. dict_get v ''distance_meters'' PNone) (map poi_dump ?entries)
             = map (\<lambda>p. Inr (PInt (distance_meters p))) ?entries"
    by (simp add: poi_dump_def)
  have dist: "\<exists>a b c d.
               as_number latitude = Some a \<and> as_number longitude = Some b
             \<and> as_number (poi_latitude p) = Some c \<and> as_number (poi_longitude p) = Some d
             \<and> distance_meters p = py_int (haversine e a b c d)"
    if "p \<in> set ?entries" for p
  proof -
    from that have "p \<in> set (sort_key distance_meters fs)" by (rule in_set_takeD)
    then have "p \<in> set fs" by simp
    with fs show ?thesis by (rule format_pois_distance)
  qed
  from fs st dt res tot len srt keys dist show ?thesis
    by (intro exI [of _ fs] exI [of _ ?entries] exI [of _ fields]) simp
qed


theorem poi_search_sorted_top_ten_witness:
  "search_overpass (stub_env (\<lambda>n m. Timeout) poi_net) 0 0 = Inr []
   \<and> (\<exists>els. search_overpass (stub_env (\<lambda>n m. Timeout) poi_net) 0 1 = Inr els \<and> length els = 3)
   \<and> (\<exists>r fields.
        poi_search (stub_env (\<lambda>n m. Timeout) poi_net) 0
          \<lparr>base_url = ''u'', timeout = 10, user_agent = ''a''\<rparr>
          (PStr ''cafe'') (PInt 0) (PInt 0) (PInt 1000) = Inr r
      \<and> status r = ''success''
      \<and> data r = Some fields
      \<and> map_of fields ''results'' = Some (PList
           [PDict [(''name'', PStr ''Unnamed''), (''latitude'', PInt 1), (''longitude'', PInt 1),
                   (''type'', PStr ''POI''), (''distance_meters'', PInt 2), (''details'', PNone)],
            PDict [(''name'', PStr ''Far''), (''latitude'', PInt 5), (''longitude'', PInt 0),
                   (''type'', PStr ''cafe''), (''distance_meters'', PInt 5), (''details'', PNone)]])
      \<and> map_of fields ''total_found'' = Some (PInt 2)
      \<and> map_of fields ''search_radius_meters'' = Some (PInt 1500))"
proof -
  let ?e = "stub_env (\<lambda>n m. Timeout) poi_net"
  let ?els = "[PDict [(''lat'', PInt 5), (''lon'', PInt 0),
                  (''tags'', PDict [(''name'', PStr ''Far''), (''amenity'', PStr ''cafe'')])],
           PDict [(''lat'', PInt 1), (''lon'', PInt 1)],
           PDict [(''lat'', PInt 9)]]"
  have s0: "search_overpass ?e 0 0 = Inr []"
    by (simp add: search_overpass_def stub_env_def poi_net_def)
  have s1: "search_overpass ?e 0 1 = Inr ?els"
    by (simp add: search_overpass_def stub_env_def poi_net_def)
  have before: "\<forall>j<1. search_overpass ?e 0 j = Inr []"
    using s0 by simp
  have fm: "format_pois ?e (PInt 0) (PInt 0) ?els =
      Inr [\<lparr>poi_name = PStr ''Far'', poi_latitude = PInt 5, poi_longitude = PInt 0,
            poi_type = PStr ''cafe'', distance_meters = 5, poi_details = PNone\<rparr>,
           \<lparr>poi_name = PStr ''Unnamed'', poi_latitude = PInt 1, poi_longitude = PInt 1,
            poi_type = PStr ''POI'', distance_meters = 2, poi_details = PNone\<rparr>]"
    by (simp add: format_poi_def stub_env_def py_or_def py_int_def)
  have ret: "poi_search ?e 0 \<lparr>base_url = ''u'', timeout = 10, user_agent = ''a''\<rparr>
          (PStr ''cafe'') (PInt 0) (PInt 0) (PInt 1000) =
        Inr \<lparr>status = ''success'',
             data = Some [(''results'', PList
                [PDict [(''name'', PStr ''Unnamed''), (''latitude'', PInt 1), (''longitude'', PInt 1),
                   (''type'', PStr ''POI''), (''distance_meters'', PInt 2), (''details'', PNone)],
                 PDict [(''name'', PStr ''Far''), (''latitude'', PInt 5), (''longitude'', PInt 0),
                   (''type'', PStr ''cafe''), (''distance_meters'', PInt 5), (''details'', PNone)]]),
               (''query'', PStr ''cafe''),
               (''center'', PList [PInt 0, PInt 0]),
               (''search_radius_meters'', PInt 1500),
               (''total_found'', PInt 2)],
             message = Some ''Found ? cafe(s) near the location (showing top 10)'',
             usage = Some \<lparr>endpoint = OVERPASS_API, duration_ms = 0, timestamp = 0\<rparr>,
             error_code = None\<rparr>"
    using s0 s1 fm
    by (simp add: poi_search_def Let_def py_str_def mk_usage_def poi_dump_def py_int_def
        stub_env_def)
  from poi_search_sorted_top_ten [OF ret s1 _ _ before] s0 s1 ret
  show ?thesis by simp
qed

subsection \<open>The loop\<close>

lemma dispatch_calls_effect:
  assumes "dispatch_calls e tcs st = Inr st'"
  shows "\<exists>new. length new = length tcs
           \<and> tool_calls_made st' = tool_calls_made st @ new
           \<and> messages st' = messages st
                @ map (\<lambda>(tc, r). Tool (tc_id tc) (json_dumps e (rec_result r))) (zip tcs new)
           \<and> (\<forall>k<length tcs.
                 rec_tool (new ! k) = tc_name (tcs ! k)
               \<and> json_loads e (tc_arguments (tcs ! k)) = Inr (rec_input (new ! k))
               \<and> execute_tool e (length (tool_calls_made st) + k) (tc_name (tcs ! k))
                    (rec_input (new ! k)) = Inr (rec_result (new ! k)))
           \<and> submitted st' = submitted st
           \<and> iteration_count st' = iteration_count st"
  using assms
proof (induction tcs arbitrary: st)
  case Nil
  then show ?case by simp
next
  case (Cons tc tcs)
  from Cons.prems obtain args res where
    args: "json_loads e (tc_arguments tc) = Inr args"
    and res: "execute_tool e (length (tool_calls_made st)) (tc_name tc) args = Inr res"
    and rest: "dispatch_calls e tcs
                (st\<lparr>tool_calls_made := tool_calls_made st
                        @ [\<lparr>rec_tool = tc_name tc, rec_input = args, rec_result = res\<rparr>],
                    messages := messages st @ [Tool (tc_id tc) (json_dumps e res)]\<rparr>) = Inr st'"
    by (auto split: sum.splits)
  let ?r = "\<lparr>rec_tool = tc_name tc, rec_input = args, rec_result = res\<rparr>"
  from Cons.IH [OF rest] obtain new where
    len: "length new = length tcs"
    and recs: "tool_calls_made st' = (tool_calls_made st @ [?r]) @ new"
    and msgs: "messages st' = (messages st @ [Tool (tc_id tc) (json_dumps e res)])
                @ map (\<lambda>(tc, r). Tool (tc_id tc) (json_dumps e (rec_result r))) (zip tcs new)"
    and each: "\<forall>k<length tcs.
                 rec_tool (new ! k) = tc_name (tcs ! k)
               \<and> json_loads e (tc_arguments (tcs ! k)) = Inr (rec_input (new ! k))
               \<and> execute_tool e (length (tool_calls_made st @ [?r]) + k) (tc_name (tcs ! k))
                    (rec_input (new ! k)) = Inr (rec_result (new ! k))"
    and sub: "submitted st' = submitted st"
    and cnt: "iteration_count st' = iteration_count st"
    by auto
  have each': "rec_tool ((?r # new) ! k) = tc_name ((tc # tcs) ! k)
               \<and> json_loads e (tc_arguments ((tc # tcs) ! k)) = Inr (rec_input ((?r # new) ! k))
               \<and> execute_tool e (length (tool_calls_made st) + k) (tc_name ((tc # tcs) ! k))
                    (rec_input ((?r # new) ! k)) = Inr (rec_result ((?r # new) ! k))"
    if "k < length (tc # tcs)" for k
  proof (cases k)
    case 0
    with args res show ?thesis by simp
  next
    case (Suc k')
    with that have "k' < length tcs" by simp
    with each Suc show ?thesis by simp
  qed
  show ?case
    apply (rule exI [of _ "?r # new"])
    using len recs msgs sub cnt each' by simp
qed

lemma interpret_response_log: "step_log (interpret_response e st r) = submitted st"
  by (auto simp: interpret_response_def split: option.splits list.splits sum.splits
           dest!: dispatch_calls_effect)

lemma dispatch_calls_messages:
  assumes "dispatch_calls e tcs st = Inr st'"
  shows "\<exists>ts. length ts = length tcs \<and> messages st' = messages st @ ts
           \<and> submitted st' = submitted st"
  using assms
proof (induction tcs arbitrary: st)
  case Nil
  then show ?case by simp
next
  case (Cons tc tcs)
  from Cons.prems obtain args res where
    rest: "dispatch_calls e tcs
                (st\<lparr>tool_calls_made := tool_calls_made st
                        @ [\<lparr>rec_tool = tc_name tc, rec_input = args, rec_result = res\<rparr>],
                    messages := messages st @ [Tool (tc_id tc) (json_dumps e res)]\<rparr>) = Inr st'"
    by (auto split: sum.splits)
  from Cons.IH [OF rest] obtain ts where
    ts: "length ts = length tcs"
        "messages st' = (messages st @ [Tool (tc_id tc) (json_dumps e res)]) @ ts"
        "submitted st' = submitted st"
    by auto
  show ?case
    by (rule exI [of _ "Tool (tc_id tc) (json_dumps e res) # ts"]) (simp add: ts)
qed

lemma interpret_response_Next:
  assumes "interpret_response e st r = Next st'"
  shows "\<exists>tcs ts. tcs \<noteq> [] \<and> messages st' = messages st @ Assistant tcs # ts
           \<and> length ts = length tcs \<and> submitted st' = submitted st"
proof -
  from assms obtain tc tcs where
    d: "dispatch_calls e (tc # tcs) (st\<lparr>messages := messages st @ [Assistant (tc # tcs)]\<rparr>)
          = Inr st'"
    by (auto simp: interpret_response_def split: if_splits option.splits list.splits sum.splits)
  from dispatch_calls_messages [OF d] obtain ts where
    "length ts = length (tc # tcs)"
    "messages st' = messages (st\<lparr>messages := messages st @ [Assistant (tc # tcs)]\<rparr>) @ ts"
    "submitted st' = submitted (st\<lparr>messages := messages st @ [Assistant (tc # tcs)]\<rparr>)"
    by auto
  then show ?thesis
    by (intro exI [of _ "tc # tcs"] exI [of _ ts]) simp
qed

lemma iteration_unfold:
  assumes "msgs = (if 14 < length (messages st) then take 2 (messages st) else messages st)"
  shows "iteration e st =
    (case completion e (length (submitted st)) msgs of
       Timeout \<Rightarrow> Done (Inr (timeout_message, tool_calls_made st)) (submitted st @ [msgs])
     | Raised s \<Rightarrow>
         if str_contains ''context_length_exceeded'' s then
           (case completion e (Suc (length (submitted st))) (take 2 (messages st)) of
              Timeout \<Rightarrow>
                Done (Inr (timeout_message, tool_calls_made st))
                  (submitted st @ [msgs, take 2 (messages st)])
            | Raised s2 \<Rightarrow>
                Done (Inl (LibraryError s2)) (submitted st @ [msgs, take 2 (messages st)])
            | Response r \<Rightarrow>
                interpret_response e
                  (st\<lparr>iteration_count := iteration_count st + 1,
                      messages := take 2 (messages st),
                      submitted := submitted st @ [msgs, take 2 (messages st)]\<rparr>) r)
         else Done (Inl (LibraryError s)) (submitted st @ [msgs])
     | Response r \<Rightarrow>
         interpret_response e
           (st\<lparr>iteration_count := iteration_count st + 1,
               messages := msgs,
               submitted := submitted st @ [msgs]\<rparr>) r)"
proof (cases "14 < length (messages st)")
  case True
  with assms show ?thesis
    by (simp add: iteration_def Let_def prune_message_history_def
             split: completion_outcome.split)
next
  case False
  with assms show ?thesis
    by (simp add: iteration_def Let_def prune_message_history_def
             split: completion_outcome.split)
qed

lemma iteration_Next_cases:
  assumes "iteration e st = Next st'"
      and "msgs = (if 14 < length (messages st) then take 2 (messages st) else messages st)"
  shows "\<exists>base sent r.
           interpret_response e
             (st\<lparr>iteration_count := iteration_count st + 1, messages := base,
                 submitted := sent\<rparr>) r = Next st'
         \<and> (base = msgs \<and> sent = submitted st @ [msgs]
              \<or> base = take 2 (messages st) \<and> sent = submitted st @ [msgs, take 2 (messages st)])"
proof (cases "completion e (length (submitted st)) msgs")
  case Timeout
  with assms show ?thesis by (simp add: iteration_unfold [OF assms(2)])
next
  case (Raised s)
  show ?thesis
  proof (cases "completion e (Suc (length (submitted st))) (take 2 (messages st))")
    case Timeout
    with Raised assms(1) show ?thesis
      by (simp add: iteration_unfold [OF assms(2)] split: if_splits)
  next
    case (Raised s2)
    with \<open>completion e (length (submitted st)) msgs = Raised s\<close> assms(1) show ?thesis
      by (simp add: iteration_unfold [OF assms(2)] split: if_splits)
  next
    case (Response r)
    with Raised assms(1) show ?thesis
      by (simp add: iteration_unfold [OF assms(2)] split: if_splits) blast
  qed
next
  case (Response r)
  with assms(1) show ?thesis
    by (simp add: iteration_unfold [OF assms(2)]) blast
qed

lemma iteration_Next_prefix:
  assumes "iteration e st = Next st'" and "2 \<le> length (messages st)"
  shows "take 2 (messages st') = take 2 (messages st) \<and> 2 \<le> length (messages st')"
proof -
  define msgs where
    "msgs = (if 14 < length (messages st) then take 2 (messages st) else messages st)"
  have m: "take 2 msgs = take 2 (messages st)" "2 \<le> length msgs"
    using assms(2) by (simp_all add: msgs_def)
  from iteration_Next_cases [OF assms(1) msgs_def] obtain base sent r where
    i: "interpret_response e
             (st\<lparr>iteration_count := iteration_count st + 1, messages := base,
                 submitted := sent\<rparr>) r = Next st'"
    and b: "base = msgs \<or> base = take 2 (messages st)"
    by blast
  from interpret_response_Next [OF i] obtain tcs ts where
    "messages st' = base @ Assistant tcs # ts" by auto
  moreover from b m assms(2) have "take 2 base = take 2 (messages st)" "2 \<le> length base"
    by auto
  ultimately show ?thesis by simp
qed

lemma reachable_prefix:
  assumes "reachable e self user_message st"
  shows "take 2 (messages st) = [System (system_prompt self), User user_message]
         \<and> 2 \<le> length (messages st)"
  using assms
proof (induction rule: reachable.induct)
  case reach_init
  show ?case by (simp add: initial_state_def)
next
  case (reach_step st st')
  with iteration_Next_prefix [of e st st'] show ?case by simp
qed

lemma reachable_loop:
  assumes "reachable e self user_message st"
  shows "agentic_loop e st = process_query e self user_message"
  using assms
proof (induction rule: reachable.induct)
  case reach_init
  show ?case by (simp add: process_query_def)
next
  case (reach_step st st')
  have "agentic_loop e st = agentic_loop e st'"
    using reach_step.hyps(2) by (subst agentic_loop.simps) simp
  with reach_step.IH show ?case by simp
qed

lemma loop_Done:
  "iteration e st = Done outcome sent \<Longrightarrow> agentic_loop e st = Some (outcome, sent)"
  by (subst agentic_loop.simps) simp


lemma submitted_transcript:
  "(if 14 < length ms then prune_message_history ms else ms)
     = (if 14 < length ms then take 2 ms else ms)"
  by (simp add: prune_message_history_def)

lemma iteration_log:
  assumes "msgs = (if 14 < length (messages st) then take 2 (messages st) else messages st)"
  shows "step_log (iteration e st) =
           (case completion e (length (submitted st)) msgs of
              Raised s \<Rightarrow>
                if str_contains ''context_length_exceeded'' s
                then submitted st @ [msgs, take 2 (messages st)]
                else submitted st @ [msgs]
            | _ \<Rightarrow> submitted st @ [msgs])"
  by (simp add: iteration_unfold [OF assms] interpret_response_log
           split: completion_outcome.split)

lemma dispatch_unknown_step:
  "dispatch_calls (stub_env llm net) (unknown_call # rest) st =
     dispatch_calls (stub_env llm net) rest
       (st\<lparr>tool_calls_made := tool_calls_made st @ [unknown_record],
           messages := messages st @ [Tool ''call_1'' ''{}'']\<rparr>)"
proof -
  have ex: "execute_tool (stub_env llm net) i ''teleport'' (PDict []) =
      Inr (PDict [(''status'', PStr ''error''), (''message'', PStr ''Unknown tool: teleport'')])" for i
    by (simp add: execute_tool_def)
  have ld: "json_loads (stub_env llm net) ''{}'' = Inr (PDict [])"
    and dp: "json_dumps (stub_env llm net) v = ''{}''" for v
    by (simp_all add: stub_env_def)
  show ?thesis
    by (simp add: unknown_call_def unknown_record_def ex ld dp)
qed

lemma dispatch_unknown:
  "dispatch_calls (stub_env llm net) (replicate k unknown_call) st =
     Inr (st\<lparr>tool_calls_made := tool_calls_made st @ replicate k unknown_record,
             messages := messages st @ replicate k (Tool ''call_1'' ''{}'')\<rparr>)"
proof (induction k arbitrary: st)
  case 0
  show ?case by simp
next
  case (Suc k)
  show ?case
    unfolding replicate_Suc dispatch_unknown_step Suc.IH by simp
qed

lemma first_pass:
  "iteration (stub_env (llm_script (calls_response (Suc k) # rest)) no_net)
       (initial_state demo_self ''hi'')
     = Next (after_calls (Suc k))"
proof -
  let ?e = "stub_env (llm_script (calls_response (Suc k) # rest)) no_net"
  let ?st = "\<lparr>messages = [System the_system_prompt, User ''hi''],
              tool_calls_made = [], iteration_count = Suc 0,
              submitted = [[System the_system_prompt, User ''hi'']]\<rparr>"
  have c: "completion ?e 0 msgs =
      Response \<lparr>finish_reason = ''tool_calls'', content = None,
                tool_calls = Some (unknown_call # replicate k unknown_call)\<rparr>" for msgs
    by (simp add: stub_env_def llm_script_def calls_response_def)
  have d: "dispatch_calls ?e (unknown_call # replicate k unknown_call)
             (?st\<lparr>messages := messages ?st
                      @ [Assistant (unknown_call # replicate k unknown_call)]\<rparr>)
           = Inr (after_calls (Suc k))"
    using dispatch_unknown [of "llm_script (calls_response (Suc k) # rest)" no_net "Suc k"]
    by (simp add: after_calls_def)
  have i: "interpret_response ?e ?st
             \<lparr>finish_reason = ''tool_calls'', content = None,
              tool_calls = Some (unknown_call # replicate k unknown_call)\<rparr>
           = Next (after_calls (Suc k))"
    using d by (simp add: interpret_response_def)
  show ?thesis
    using i by (simp add: iteration_def Let_def initial_state_def demo_self_def c)
qed

subsection \<open>Timeout of a submission\<close>

text \<open>
  Claim C5. At any state the loop of a query reaches, if the submission to the completion
  service runs out of its bounded wait, \<open>process_query\<close> returns the fixed timeout
  message together with the records accumulated before that call, and the timed-out
  submission is the last one made: it is not retried. The same holds when the submission
  that runs out of time is the single resubmission after a capacity error.
\<close>

theorem submission_timeout_aborts:
  assumes reach: "reachable e self user_message st"
      and msgs: "msgs = (if 14 < length (messages st)
                         then prune_message_history (messages st) else messages st)"
  shows "(completion e (length (submitted st)) msgs = Timeout \<longrightarrow>
            process_query e self user_message =
              Some (Inr (timeout_message, tool_calls_made st), submitted st @ [msgs]))
       \<and> (\<forall>s. completion e (length (submitted st)) msgs = Raised s
                \<and> str_contains ''context_length_exceeded'' s
                \<and> completion e (Suc (length (submitted st))) (take 2 msgs) = Timeout \<longrightarrow>
            process_query e self user_message =
              Some (Inr (timeout_message, tool_calls_made st),
                    submitted st @ [msgs, take 2 msgs]))"
proof -
  have m: "msgs = (if 14 < length (messages st) then take 2 (messages st) else messages st)"
    using msgs by (simp add: submitted_transcript)
  have t2: "take 2 msgs = take 2 (messages st)"
    using m by simp
  have loop: "agentic_loop e st = process_query e self user_message"
    using reach by (rule reachable_loop)
  have A: "process_query e self user_message =
              Some (Inr (timeout_message, tool_calls_made st), submitted st @ [msgs])"
    if "completion e (length (submitted st)) msgs = Timeout"
  proof -
    from that have "iteration e st =
        Done (Inr (timeout_message, tool_calls_made st)) (submitted st @ [msgs])"
      by (simp add: iteration_unfold [OF m])
    then show ?thesis using loop loop_Done by metis
  qed
  have B: "process_query e self user_message =
              Some (Inr (timeout_message, tool_calls_made st),
                    submitted st @ [msgs, take 2 msgs])"
    if "completion e (length (submitted st)) msgs = Raised s"
      and "str_contains ''context_length_exceeded'' s"
      and "completion e (Suc (length (submitted st))) (take 2 msgs) = Timeout" for s
  proof -
    from that have "iteration e st =
        Done (Inr (timeout_message, tool_calls_made st)) (submitted st @ [msgs, take 2 msgs])"
      by (simp add: iteration_unfold [OF m] t2)
    then show ?thesis using loop loop_Done by metis
  qed
  from A B show ?thesis by blast
qed

theorem submission_timeout_aborts_witness:
  "reachable (stub_env (llm_script [calls_response (Suc 0), Timeout]) no_net) demo_self ''hi''
       (after_calls (Suc 0))
   \<and> tool_calls_made (after_calls (Suc 0)) = [unknown_record]
   \<and> completion (stub_env (llm_script [calls_response (Suc 0), Timeout]) no_net)
         (length (submitted (after_calls (Suc 0)))) (messages (after_calls (Suc 0))) = Timeout
   \<and> process_query (stub_env (llm_script [calls_response (Suc 0), Timeout]) no_net)
         demo_self ''hi''
       = Some (Inr (timeout_message, [unknown_record]),
               [[System the_system_prompt, User ''hi''],
                [System the_system_prompt, User ''hi'', Assistant [unknown_call],
                 Tool ''call_1'' ''{}'']])"
proof -
  let ?e = "stub_env (llm_script [calls_response (Suc 0), Timeout]) no_net"
  have r: "reachable ?e demo_self ''hi'' (after_calls (Suc 0))"
    using reach_step [OF reach_init first_pass] .
  have t: "completion ?e (length (submitted (after_calls (Suc 0))))
             (messages (after_calls (Suc 0))) = Timeout"
    by (simp add: stub_env_def llm_script_def after_calls_def)
  have m: "messages (after_calls (Suc 0)) =
      (if 14 < length (messages (after_calls (Suc 0)))
       then prune_message_history (messages (after_calls (Suc 0)))
       else messages (after_calls (Suc 0)))"
    by (simp add: after_calls_def)
  from submission_timeout_aborts [OF r m] t r show ?thesis
    by (simp add: after_calls_def)
qed

subsection \<open>Pruning of a long transcript\<close>



subsection \<open>Recovery from a capacity error\<close>

text \<open>
  Claim C1, as the code has it. At any state the loop of a query reaches, if the
  submission fails with an exception whose text contains \<open>context_length_exceeded\<close>, the
  transcript is cut to its first two turns (the system directive and the original user
  message) and submitted once more, and no third time in that pass. If that resubmission
  runs out of time, \<open>process_query\<close> returns the timeout message with the records
  accumulated so far; if it raises any exception, a second capacity error included, the
  exception leaves \<open>process_query\<close>; if it returns a completion, the pass goes on from
  the two-turn transcript.
\<close>

theorem capacity_error_single_retry:
  assumes reach: "reachable e self user_message st"
      and msgs: "msgs = (if 14 < length (messages st)
                         then prune_message_history (messages st) else messages st)"
      and cap: "completion e (length (submitted st)) msgs = Raised s"
      and cle: "str_contains ''context_length_exceeded'' s"
  shows "take 2 msgs = [System (system_prompt self), User user_message]
       \<and> step_log (iteration e st) = submitted st @ [msgs, take 2 msgs]
       \<and> (completion e (Suc (length (submitted st))) (take 2 msgs) = Timeout \<longrightarrow>
            process_query e self user_message =
              Some (Inr (timeout_message, tool_calls_made st),
                    submitted st @ [msgs, take 2 msgs]))
       \<and> (\<forall>s2. completion e (Suc (length (submitted st))) (take 2 msgs) = Raised s2 \<longrightarrow>
            process_query e self user_message =
              Some (Inl (LibraryError s2), submitted st @ [msgs, take 2 msgs]))
       \<and> (\<forall>r. completion e (Suc (length (submitted st))) (take 2 msgs) = Response r \<longrightarrow>
            iteration e st =
              interpret_response e
                (st\<lparr>iteration_count := iteration_count st + 1,
                    messages := take 2 msgs,
                    submitted := submitted st @ [msgs, take 2 msgs]\<rparr>) r)"
proof -
  have m: "msgs = (if 14 < length (messages st) then take 2 (messages st) else messages st)"
    using msgs by (simp add: submitted_transcript)
  have t2: "take 2 msgs = take 2 (messages st)"
    using m by simp
  have two: "take 2 msgs = [System (system_prompt self), User user_message]"
    using reachable_prefix [OF reach] t2 by simp
  have loop: "agentic_loop e st = process_query e self user_message"
    using reach by (rule reachable_loop)
  have L: "step_log (iteration e st) = submitted st @ [msgs, take 2 msgs]"
    using cap cle by (simp add: iteration_log [OF m] t2)
  have A: "process_query e self user_message =
              Some (Inr (timeout_message, tool_calls_made st),
                    submitted st @ [msgs, take 2 msgs])"
    if "completion e (Suc (length (submitted st))) (take 2 msgs) = Timeout"
  proof -
    from that cap cle have "iteration e st =
        Done (Inr (timeout_message, tool_calls_made st)) (submitted st @ [msgs, take 2 msgs])"
      by (simp add: iteration_unfold [OF m] t2)
    then show ?thesis using loop loop_Done by metis
  qed
  have B: "process_query e self user_message =
              Some (Inl (LibraryError s2), submitted st @ [msgs, take 2 msgs])"
    if "completion e (Suc (length (submitted st))) (take 2 msgs) = Raised s2" for s2
  proof -
    from that cap cle have "iteration e st =
        Done (Inl (LibraryError s2)) (submitted st @ [msgs, take 2 msgs])"
      by (simp add: iteration_unfold [OF m] t2)
    then show ?thesis using loop loop_Done by metis
  qed
  have C: "iteration e st =
              interpret_response e
                (st\<lparr>iteration_count := iteration_count st + 1,
                    messages := take 2 msgs,
                    submitted := submitted st @ [msgs, take 2 msgs]\<rparr>) r"
    if "completion e (Suc (length (submitted st))) (take 2 msgs) = Response r" for r
    using that cap cle by (simp add: iteration_unfold [OF m] t2)
  from two L A B C show ?thesis by blast
qed

text \<open>
  The claim as stated (a resubmission that fails too yields the timeout message rather
  than an exception) does not hold: against a completion service that always raises the
  capacity error, \<open>process_query\<close> raises after two submissions of the two-turn
  transcript.
\<close>

theorem capacity_error_twice_raises:
  "process_query
     (stub_env (llm_script [Raised ''context_length_exceeded'',
                            Raised ''context_length_exceeded'']) no_net)
     demo_self ''hi''
   = Some (Inl (LibraryError ''context_length_exceeded''),
           [[System the_system_prompt, User ''hi''], [System the_system_prompt, User ''hi'']])
   \<and> \<not> (\<exists>records sent.
          process_query
            (stub_env (llm_script [Raised ''context_length_exceeded'',
                                   Raised ''context_length_exceeded'']) no_net)
            demo_self ''hi''
          = Some (Inr (timeout_message, records), sent))"
proof -
  let ?e = "stub_env (llm_script [Raised ''context_length_exceeded'',
                                  Raised ''context_length_exceeded'']) no_net"
  have c0: "completion ?e 0 msgs = Raised ''context_length_exceeded''"
    and c1: "completion ?e (Suc 0) msgs = Raised ''context_length_exceeded''" for msgs
    by (simp_all add: stub_env_def llm_script_def)
  have "iteration ?e (initial_state demo_self ''hi'') =
      Done (Inl (LibraryError ''context_length_exceeded''))
        [[System the_system_prompt, User ''hi''], [System the_system_prompt, User ''hi'']]"
    by (simp add: iteration_unfold [OF refl] initial_state_def demo_self_def c0 c1)
  then have "process_query ?e demo_self ''hi'' =
      Some (Inl (LibraryError ''context_length_exceeded''),
        [[System the_system_prompt, User ''hi''], [System the_system_prompt, User ''hi'']])"
    unfolding process_query_def by (rule loop_Done)
  then show ?thesis by simp
qed

theorem capacity_error_single_retry_witness:
  "reachable (stub_env (llm_script [Raised ''Error code: 400 - context_length_exceeded'',
                                    Timeout]) no_net) demo_self ''hi''
       (initial_state demo_self ''hi'')
   \<and> completion (stub_env (llm_script [Raised ''Error code: 400 - context_length_exceeded'',
                                    Timeout]) no_net) 0
        [System the_system_prompt, User ''hi'']
       = Raised ''Error code: 400 - context_length_exceeded''
   \<and> str_contains ''context_length_exceeded'' ''Error code: 400 - context_length_exceeded''
   \<and> process_query (stub_env (llm_script [Raised ''Error code: 400 - context_length_exceeded'',
                                    Timeout]) no_net) demo_self ''hi''
       = Some (Inr (timeout_message, []),
               [[System the_system_prompt, User ''hi''],
                [System the_system_prompt, User ''hi'']])"
proof -
  let ?e = "stub_env (llm_script [Raised ''Error code: 400 - context_length_exceeded'',
                                  Timeout]) no_net"
  let ?st = "initial_state demo_self ''hi''"
  have r: "reachable ?e demo_self ''hi'' ?st" by (rule reach_init)
  have m: "[System the_system_prompt, User ''hi''] =
      (if 14 < length (messages ?st) then prune_message_history (messages ?st)
       else messages ?st)"
    by (simp add: initial_state_def demo_self_def)
  have cap: "completion ?e (length (submitted ?st)) [System the_system_prompt, User ''hi'']
      = Raised ''Error code: 400 - context_length_exceeded''"
    by (simp add: stub_env_def llm_script_def initial_state_def)
  have cle: "str_contains ''context_length_exceeded''
      ''Error code: 400 - context_length_exceeded''"
    by simp
  have t: "completion ?e (Suc (length (submitted ?st)))
             (take 2 [System the_system_prompt, User ''hi'']) = Timeout"
    by (simp add: stub_env_def llm_script_def initial_state_def)
  from capacity_error_single_retry [OF r m cap cle] t r cap cle show ?thesis
    by (simp add: initial_state_def)
qed

subsection \<open>One tool call, then completion\<close>





subsection \<open>The tool catalog\<close>

lemma catalog_names:
  "map fn_name build_tools =
     [''forward_geocode'', ''reverse_geocode'', ''poi_search'',
      ''route'', ''distance_matrix'', ''match_trace'',
      ''list_tile_providers'', ''get_tile_provider_info'', ''get_tile_attribution'']"
  by (simp add: build_tools_def build_tools_of_def get_geocoding_tools_def
      get_routing_tools_def get_tiles_tools_def)

text \<open>
  Claim C2, as the code has it. The constructor does not look at tool names: it fails
  only for a missing API key, and otherwise the catalog is the concatenation of the
  catalogs of the geocoding, routing and tiles providers, in that order. For the three
  catalogs of this program the names of the assembled catalog are pairwise distinct.
\<close>

theorem catalog_concatenated_unchecked:
  "MapAgentOrchestrator_of e m geocoding routing tiles =
     (case getenv e ''OPENAI_API_KEY'' of
        None \<Rightarrow> Inl (LibraryError ''The api_key client option must be set'')
      | Some key \<Rightarrow>
          Inr \<lparr>model = m, tools = geocoding @ routing @ tiles,
               system_prompt = the_system_prompt\<rparr>)
   \<and> MapAgentOrchestrator e m =
       MapAgentOrchestrator_of e m get_geocoding_tools get_routing_tools get_tiles_tools
   \<and> build_tools = get_geocoding_tools @ get_routing_tools @ get_tiles_tools
   \<and> distinct (map fn_name build_tools)"
proof -
  have "distinct (map fn_name build_tools)"
    unfolding catalog_names by simp
  then show ?thesis
    by (simp add: MapAgentOrchestrator_of_def MapAgentOrchestrator_def build_tools_of_def
        build_tools_def split: option.split)
qed

text \<open>
  The claim as stated (a name shared by two providers makes construction fail) does not
  hold: with a geocoding catalog that also offers a tool named \<open>route\<close>, construction
  succeeds and the catalog holds the name twice.
\<close>

theorem duplicate_name_accepted:
  "fn_name shadow_spec \<in> set (map fn_name [shadow_spec]) \<inter> set (map fn_name get_routing_tools)
   \<and> MapAgentOrchestrator_of (stub_env (llm_script []) no_net) ''gpt-4o-mini''
       [shadow_spec] get_routing_tools get_tiles_tools =
     Inr \<lparr>model = ''gpt-4o-mini'',
          tools = [shadow_spec] @ get_routing_tools @ get_tiles_tools,
          system_prompt = the_system_prompt\<rparr>
   \<and> \<not> distinct (map fn_name ([shadow_spec] @ get_routing_tools @ get_tiles_tools))"
  by (simp add: MapAgentOrchestrator_of_def build_tools_of_def stub_env_def
      get_routing_tools_def get_tiles_tools_def shadow_spec_def)

end
